theory Spec2Isabelle
  imports Complex_Main
begin

section \<open>Data model of the posture-analysis engine\<close>

text \<open>
  A shallow embedding of \<^verbatim>\<open>src/services/tensorflowPoseService.ts\<close>.
  JavaScript numbers are idealised as HOL reals (no rounding error, no NaN, no signed
  zero); where the source divides by a quantity that can be zero, the outcome of the
  JavaScript comparison on the resulting Infinity or NaN is written out. The score
  smoothing is the exception: there the rounding of a sum decides which integer is
  published and whether the counters are cleared, so every binary64 operation of
  \<^verbatim>\<open>smoothPostureAnalysis\<close> is followed by its rounding.
  The fields \<^verbatim>\<open>x\<close>, \<^verbatim>\<open>y\<close>, \<^verbatim>\<open>z\<close> of a landmark
  are called \<open>px\<close>, \<open>py\<close>, \<open>pz\<close> here, and those of a detector keypoint
  \<open>kx\<close>, \<open>ky\<close>, \<open>kscore\<close>.
\<close>

record Landmark =
  px :: real
  py :: real
  pz :: real
  visibility :: real

record PoseLandmarks =
  nose :: Landmark
  leftEye :: Landmark
  rightEye :: Landmark
  leftEar :: Landmark
  rightEar :: Landmark
  leftShoulder :: Landmark
  rightShoulder :: Landmark
  leftElbow :: Landmark
  rightElbow :: Landmark
  leftWrist :: Landmark
  rightWrist :: Landmark
  leftHip :: Landmark
  rightHip :: Landmark
  leftKnee :: Landmark
  rightKnee :: Landmark
  leftAnkle :: Landmark
  rightAnkle :: Landmark

record PostureAnalysis =
  score :: real
  issues :: "string list"
  neckAngle :: real
  shoulderAlignment :: real
  spineAlignment :: real
  headPosition :: real
  shoulderHeight :: real

record Keypoint =
  kx :: real
  ky :: real
  kscore :: real

datatype error = TypeError | DetectionFailure

section \<open>Metric calculator\<close>

text \<open>\<^verbatim>\<open>Math.atan2(b, a)\<close> on reals.\<close>

definition atan2 :: "real \<Rightarrow> real \<Rightarrow> real" where
  "atan2 b a =
     (if a > 0 then arctan (b / a)
      else if a < 0 then (if b \<ge> 0 then arctan (b / a) + pi else arctan (b / a) - pi)
      else if b > 0 then pi / 2
      else if b < 0 then - pi / 2
      else 0)"

definition calculateNeckAngle :: "PoseLandmarks \<Rightarrow> real" where
  "calculateNeckAngle landmarks =
     (let n = nose landmarks; le = leftEar landmarks; ls = leftShoulder landmarks in
      if visibility n < 0.5 \<or> visibility le < 0.5 \<or> visibility ls < 0.5 then 0
      else
        let vec1X = px le - px ls;
            vec1Y = py le - py ls;
            vec2X = px n - px le;
            vec2Y = py n - py le;
            dotProduct = vec1X * vec2X + vec1Y * vec2Y;
            mag1 = sqrt (vec1X * vec1X + vec1Y * vec1Y);
            mag2 = sqrt (vec2X * vec2X + vec2Y * vec2Y)
        in if mag1 = 0 \<or> mag2 = 0 then 0
           else
             let angleRad = arccos (max (-1) (min 1 (dotProduct / (mag1 * mag2))));
                 angleDeg = angleRad * 180 / pi
             in max 0 (180 - angleDeg))"

definition calculateShoulderAlignment :: "PoseLandmarks \<Rightarrow> real" where
  "calculateShoulderAlignment landmarks =
     (let ls = leftShoulder landmarks; rs = rightShoulder landmarks in
      if visibility ls < 0.5 \<or> visibility rs < 0.5 then 0
      else
        let angleRad = atan2 (py rs - py ls) (px rs - px ls)
        in \<bar>angleRad * 180 / pi\<bar>)"

definition calculateSpineAlignment :: "PoseLandmarks \<Rightarrow> real" where
  "calculateSpineAlignment landmarks =
     (let ls = leftShoulder landmarks; rs = rightShoulder landmarks;
          lh = leftHip landmarks; rh = rightHip landmarks in
      if visibility ls < 0.5 \<or> visibility rs < 0.5 \<or>
         visibility lh < 0.5 \<or> visibility rh < 0.5 then 0
      else
        let shoulderMidX = (px ls + px rs) / 2;
            shoulderMidY = (py ls + py rs) / 2;
            hipMidX = (px lh + px rh) / 2;
            hipMidY = (py lh + py rh) / 2;
            angleRad = atan2 (hipMidX - shoulderMidX) (hipMidY - shoulderMidY)
        in \<bar>angleRad * 180 / pi\<bar>)"

definition calculateHeadPosition :: "PoseLandmarks \<Rightarrow> real" where
  "calculateHeadPosition landmarks =
     (let le = leftEar landmarks; re = rightEar landmarks; n = nose landmarks in
      if visibility le < 0.5 \<or> visibility re < 0.5 \<or> visibility n < 0.5 then 0
      else
        let earAngleRad = atan2 (py re - py le) (px re - px le)
        in \<bar>earAngleRad * 180 / pi\<bar>)"

definition calculateShoulderHeight :: "PoseLandmarks \<Rightarrow> real" where
  "calculateShoulderHeight landmarks =
     (let ls = leftShoulder landmarks; rs = rightShoulder landmarks in
      if visibility ls < 0.5 \<or> visibility rs < 0.5 then 0
      else \<bar>py ls - py rs\<bar> * 10)"

definition detectSlouching :: "PoseLandmarks \<Rightarrow> bool" where
  "detectSlouching landmarks =
     (let ls = leftShoulder landmarks; rs = rightShoulder landmarks;
          lh = leftHip landmarks; rh = rightHip landmarks in
      if visibility ls < 0.5 \<or> visibility rs < 0.5 \<or>
         visibility lh < 0.5 \<or> visibility rh < 0.5 then False
      else
        let shoulderCenterX = (px ls + px rs) / 2;
            hipCenterX = (px lh + px rh) / 2
        in shoulderCenterX > hipCenterX + 0.10)"

definition calculateHeadNeckScore :: "PoseLandmarks \<Rightarrow> real" where
  "calculateHeadNeckScore landmarks =
     (let n = nose landmarks; le = leftEar landmarks; re = rightEar landmarks;
          ls = leftShoulder landmarks; rs = rightShoulder landmarks in
      if visibility n < 0.5 \<or> visibility le < 0.5 \<or> visibility re < 0.5 \<or>
         visibility ls < 0.5 \<or> visibility rs < 0.5 then 0
      else
        let score0 = 10;
            earCenterY = (py le + py re) / 2;
            shoulderCenterY = (py ls + py rs) / 2;
            headShoulderAlignment = \<bar>earCenterY - shoulderCenterY\<bar>;
            score1 = (if headShoulderAlignment > 0.15
                      then score0 - min 2 (headShoulderAlignment * 15) else score0);
            headTilt = \<bar>py le - py re\<bar>;
            score2 = (if headTilt > 0.08 then score1 - min 1.8 (headTilt * 20) else score1);
            noseShoulderDistance = \<bar>px n - (px ls + px rs) / 2\<bar>;
            score3 = (if noseShoulderDistance > 0.2
                      then score2 - min 2.5 (noseShoulderDistance * 10) else score2)
        in max 0 score3)"

text \<open>
  The shoulder width shared by the two camera-distance detectors and by the visibility
  gate of \<^verbatim>\<open>analyzePosture\<close>.
\<close>

definition shoulderDistance :: "Landmark \<Rightarrow> Landmark \<Rightarrow> real" where
  "shoulderDistance ls rs = sqrt ((px ls - px rs)\<^sup>2 + (py ls - py rs)\<^sup>2)"

definition noseToShoulderDistance :: "Landmark \<Rightarrow> Landmark \<Rightarrow> Landmark \<Rightarrow> real" where
  "noseToShoulderDistance n ls rs =
     (let shoulderCenterX = (px ls + px rs) / 2;
          shoulderCenterY = (py ls + py rs) / 2
      in sqrt ((px n - shoulderCenterX)\<^sup>2 + (py n - shoulderCenterY)\<^sup>2))"

text \<open>
  \<^verbatim>\<open>distanceRatio = noseToShoulderDistance / shoulderDistance\<close>: when the
  shoulder distance is 0 the JavaScript quotient is Infinity or NaN, for which
  \<^verbatim>\<open>distanceRatio < 0.3\<close> is false, whereas HOL's \<open>x / 0\<close> is 0. The comparison
  with the ratio is therefore taken only for a non-zero divisor (in the too-far test the
  first disjunct already holds when the shoulder distance is 0).
\<close>

definition detectTooCloseToCamera :: "PoseLandmarks \<Rightarrow> bool" where
  "detectTooCloseToCamera landmarks =
     (let ls = leftShoulder landmarks; rs = rightShoulder landmarks; n = nose landmarks in
      if visibility ls < 0.5 \<or> visibility rs < 0.5 \<or> visibility n < 0.5 then False
      else
        let sd = shoulderDistance ls rs;
            nd = noseToShoulderDistance n ls rs
        in sd > 0.8 \<or> (sd \<noteq> 0 \<and> nd / sd < 0.3))"

definition detectTooFarFromCamera :: "PoseLandmarks \<Rightarrow> bool" where
  "detectTooFarFromCamera landmarks =
     (let ls = leftShoulder landmarks; rs = rightShoulder landmarks; n = nose landmarks in
      if visibility ls < 0.5 \<or> visibility rs < 0.5 \<or> visibility n < 0.5 then False
      else
        let sd = shoulderDistance ls rs;
            nd = noseToShoulderDistance n ls rs
        in sd < 0.15 \<or> (sd \<noteq> 0 \<and> nd / sd > 0.8))"

section \<open>Issue classifier and score aggregator\<close>

definition UPDATE_INTERVAL :: int where
  "UPDATE_INTERVAL = 2000"

definition SMOOTHING_WINDOW :: nat where
  "SMOOTHING_WINDOW = 12"

definition LANDMARK_SMOOTHING_WINDOW :: nat where
  "LANDMARK_SMOOTHING_WINDOW = 6"

definition CONSISTENCY_THRESHOLD :: int where
  "CONSISTENCY_THRESHOLD = 3"

text \<open>
  The number of key landmarks (nose, left shoulder, right shoulder) whose visibility
  exceeds 0.2.
\<close>

definition visibleLandmarks :: "PoseLandmarks \<Rightarrow> nat" where
  "visibleLandmarks landmarks =
     (let noseVisible = visibility (nose landmarks) > 0.2;
          leftShoulderVisible = visibility (leftShoulder landmarks) > 0.2;
          rightShoulderVisible = visibility (rightShoulder landmarks) > 0.2
      in length (filter (\<lambda>b. b) [noseVisible, leftShoulderVisible, rightShoulderVisible]))"

text \<open>
  \<^verbatim>\<open>potentialIssues\<close> only ever maps a key to \<^verbatim>\<open>true\<close>, so it is the
  list of its keys in insertion order; it is built together with \<^verbatim>\<open>totalScore\<close>.
  \<open>flag\<close> is the pair of statements
  \<^verbatim>\<open>potentialIssues[issue] = true; totalScore -= penalty\<close>.
\<close>

definition flag :: "string \<Rightarrow> real \<Rightarrow> string list \<times> real \<Rightarrow> string list \<times> real" where
  "flag issue penalty s = (fst s @ [issue], snd s - penalty)"

definition checkForwardHead :: "real \<Rightarrow> string list \<times> real \<Rightarrow> string list \<times> real" where
  "checkForwardHead a s =
     (if a > 30 then flag ''forward_head'' (min 2.0 (a * 0.08)) s
      else if a > 20 then flag ''slight_forward_head'' (min 0.8 (a * 0.04)) s
      else s)"

definition checkShoulderAlignment :: "real \<Rightarrow> string list \<times> real \<Rightarrow> string list \<times> real" where
  "checkShoulderAlignment a s =
     (if a > 20 then flag ''uneven_shoulders'' (min 1.5 (a * 0.08)) s
      else if a > 12 then flag ''slight_shoulder_imbalance'' (min 0.6 (a * 0.04)) s
      else s)"

definition checkHeadTilt :: "real \<Rightarrow> string list \<times> real \<Rightarrow> string list \<times> real" where
  "checkHeadTilt a s =
     (if a > 25 then flag ''head_tilt'' (min 1.8 (a * 0.08)) s
      else if a > 15 then flag ''slight_head_tilt'' (min 0.7 (a * 0.04)) s
      else s)"

definition checkShoulderHeight :: "real \<Rightarrow> string list \<times> real \<Rightarrow> string list \<times> real" where
  "checkShoulderHeight a s =
     (if a > 30 then flag ''shoulder_height_imbalance'' (min 1.2 (a * 0.05)) s
      else if a > 22 then flag ''slight_shoulder_height'' (min 0.4 (a * 0.015)) s
      else s)"

definition checkSpineAlignment :: "real \<Rightarrow> string list \<times> real \<Rightarrow> string list \<times> real" where
  "checkSpineAlignment a s =
     (if a > 40 then flag ''spine_alignment'' (min 1 (a * 0.04)) s
      else if a > 32 then flag ''slight_spine_deviation'' (min 0.4 (a * 0.015)) s
      else s)"

definition checkSlouching :: "bool \<Rightarrow> string list \<times> real \<Rightarrow> string list \<times> real" where
  "checkSlouching slouching s = (if slouching then flag ''slouching'' 1.3 s else s)"

definition checkHeadNeck :: "real \<Rightarrow> string list \<times> real \<Rightarrow> string list \<times> real" where
  "checkHeadNeck headNeckScore s =
     (if headNeckScore < 60 then flag ''head_neck_alignment'' 1 s
      else if headNeckScore < 70 then flag ''slight_head_neck'' 0.5 s
      else s)"

definition checkTooClose :: "bool \<Rightarrow> string list \<times> real \<Rightarrow> string list \<times> real" where
  "checkTooClose tooCloseToCamera s =
     (if tooCloseToCamera then flag ''too_close_to_camera'' 2 s else s)"

definition checkTooFar :: "bool \<Rightarrow> string list \<times> real \<Rightarrow> string list \<times> real" where
  "checkTooFar tooFarFromCamera s =
     (if tooFarFromCamera then flag ''too_far_from_camera'' 2 s else s)"

text \<open>The checks of \<^verbatim>\<open>analyzePosture\<close> in source order, starting from a score of 10.\<close>

definition detectIssues :: "PoseLandmarks \<Rightarrow> string list \<times> real" where
  "detectIssues landmarks =
     (let s0 = ([], 10);
          s1 = checkForwardHead (calculateNeckAngle landmarks) s0;
          s2 = checkShoulderAlignment (calculateShoulderAlignment landmarks) s1;
          s3 = checkHeadTilt (calculateHeadPosition landmarks) s2;
          s4 = checkShoulderHeight (calculateShoulderHeight landmarks) s3;
          s5 = checkSpineAlignment (calculateSpineAlignment landmarks) s4;
          s6 = checkSlouching (detectSlouching landmarks) s5;
          s7 = checkHeadNeck (calculateHeadNeckScore landmarks) s6;
          s8 = checkTooClose (detectTooCloseToCamera landmarks) s7
      in checkTooFar (detectTooFarFromCamera landmarks) s8)"

text \<open>
  \<^verbatim>\<open>issueConsistency\<close> is a JavaScript object used as a dictionary; its entries
  are kept in insertion order, which is the order \<^verbatim>\<open>Object.entries\<close> visits them.
\<close>

type_synonym counters = "(string \<times> int) list"

definition decreaseAbsent :: "string list \<Rightarrow> counters \<Rightarrow> counters" where
  "decreaseAbsent potential ic =
     map (\<lambda>(issue, count).
            if issue \<in> set potential then (issue, count)
            else (issue, max 0 (count - 3))) ic"

fun increaseCounter :: "string \<Rightarrow> counters \<Rightarrow> counters" where
  "increaseCounter issue [] = [(issue, 1)]"
| "increaseCounter issue ((k, c) # rest) =
     (if k = issue then (k, c + 1) # rest else (k, c) # increaseCounter issue rest)"

definition increaseDetected :: "string list \<Rightarrow> counters \<Rightarrow> counters" where
  "increaseDetected potential ic = foldl (\<lambda>m issue. increaseCounter issue m) ic potential"

definition tooFarMessage :: string where
  "tooFarMessage = ''Too far from camera - Move closer for better posture detection''"

definition repositionMessage :: string where
  "repositionMessage =
     ''Position yourself more clearly in front of the camera for better detection''"

text \<open>
  The \<^verbatim>\<open>switch\<close> that turns an issue key into its coaching message, as a table in
  the order of its cases; a key without a case pushes nothing.
\<close>

definition issueMessages :: "(string \<times> string) list" where
  "issueMessages =
     [(''forward_head'',
        ''Forward head posture - Try pulling your chin back and aligning your ears over your shoulders''),
      (''slight_forward_head'',
        ''Slight forward head - Gently tuck your chin and lengthen the back of your neck''),
      (''uneven_shoulders'',
        ''Uneven shoulders - Try to level your shoulders by relaxing the higher one''),
      (''slight_shoulder_imbalance'',
        ''Slight shoulder imbalance - Focus on keeping both shoulders at the same height''),
      (''head_tilt'',
        ''Head tilted - Try to keep your head level and centered''),
      (''slight_head_tilt'',
        ''Slight head tilt - Gently straighten your head to center''),
      (''shoulder_height_imbalance'',
        ''Shoulder height imbalance - Relax your shoulders and let them hang naturally''),
      (''slight_shoulder_height'',
        ''Slight shoulder height difference - Focus on keeping shoulders level''),
      (''spine_alignment'',
        ''Poor spine alignment - Sit up straight, imagine a string pulling you up from the top of your head''),
      (''slight_spine_deviation'',
        ''Slight spine deviation - Gently straighten your back and engage your core''),
      (''slouching'',
        ''Slouching detected - Roll your shoulders back and down, open your chest''),
      (''head_neck_alignment'',
        ''Poor head and neck alignment - Try to align your head directly over your shoulders''),
      (''slight_head_neck'',
        ''Slight head/neck misalignment - Gently adjust your head position''),
      (''too_close_to_camera'',
        ''Too close to camera - Move back to get better posture detection''),
      (''too_far_from_camera'',
        tooFarMessage)]"

definition issueMessage :: "string \<Rightarrow> string option" where
  "issueMessage issue = map_of issueMessages issue"

definition consistentIssues :: "string list \<Rightarrow> counters \<Rightarrow> string list" where
  "consistentIssues potential ic =
     concat (map (\<lambda>(issue, count).
                    if count \<ge> CONSISTENCY_THRESHOLD \<and> issue \<in> set potential
                    then (case issueMessage issue of Some m \<Rightarrow> [m] | None \<Rightarrow> [])
                    else []) ic)"

definition positiveFeedback :: "real \<Rightarrow> string list" where
  "positiveFeedback totalScore =
     (if totalScore \<ge> 8.0 then [''Excellent posture! Keep it up!'']
      else if totalScore \<ge> 7.0 then [''Good posture overall, minor adjustments needed'']
      else if totalScore \<ge> 6.0 then [''Posture is improving, keep working on it'']
      else [])"

text \<open>
  \<^verbatim>\<open>analyzePosture\<close> reads and writes \<^verbatim>\<open>this.issueConsistency\<close>: the model
  takes the counters and returns them updated beside the analysis.
\<close>

definition analyzePosture :: "PoseLandmarks \<Rightarrow> counters \<Rightarrow> PostureAnalysis \<times> counters" where
  "analyzePosture landmarks ic =
     (if visibleLandmarks landmarks < 2 then
        (let ls = leftShoulder landmarks; rs = rightShoulder landmarks in
         if visibility ls > 0.1 \<and> visibility rs > 0.1 \<and> shoulderDistance ls rs < 0.1
         then (\<lparr>score = 5, issues = [tooFarMessage], neckAngle = 0,
                shoulderAlignment = 0, spineAlignment = 0, headPosition = 0,
                shoulderHeight = 0\<rparr>, ic)
         else (\<lparr>score = 7.5, issues = [repositionMessage], neckAngle = 0,
                shoulderAlignment = 0, spineAlignment = 0, headPosition = 0,
                shoulderHeight = 0\<rparr>, ic))
      else
        (let potential = fst (detectIssues landmarks);
             totalScore = snd (detectIssues landmarks);
             ic1 = decreaseAbsent potential ic;
             ic2 = increaseDetected potential ic1;
             shown = consistentIssues potential ic2 @ positiveFeedback totalScore;
             finalScore = max 2 (min 10 totalScore)
         in (\<lparr>score = finalScore, issues = shown,
              neckAngle = calculateNeckAngle landmarks,
              shoulderAlignment = calculateShoulderAlignment landmarks,
              spineAlignment = calculateSpineAlignment landmarks,
              headPosition = calculateHeadPosition landmarks,
              shoulderHeight = calculateShoulderHeight landmarks\<rparr>, ic2)))"

section \<open>Landmark smoother\<close>

text \<open>
  Reading a property of \<^verbatim>\<open>undefined\<close> raises a TypeError: \<^verbatim>\<open>getKeypoint\<close>
  does so when the keypoint array has no entry at the index.
\<close>

definition bindE :: "error + 'a \<Rightarrow> ('a \<Rightarrow> error + 'b) \<Rightarrow> error + 'b" where
  "bindE r f = (case r of Inl e \<Rightarrow> Inl e | Inr v \<Rightarrow> f v)"

definition getKeypoint :: "Keypoint list \<Rightarrow> nat \<Rightarrow> error + Landmark" where
  "getKeypoint keypoints index =
     (if index < length keypoints
      then (let kp = keypoints ! index
            in Inr \<lparr>px = kx kp, py = ky kp, pz = 0, visibility = kscore kp\<rparr>)
      else Inl TypeError)"

definition extractLandmarks :: "Keypoint list \<Rightarrow> error + PoseLandmarks" where
  "extractLandmarks keypoints =
     bindE (getKeypoint keypoints 0) (\<lambda>k0.
     bindE (getKeypoint keypoints 1) (\<lambda>k1.
     bindE (getKeypoint keypoints 2) (\<lambda>k2.
     bindE (getKeypoint keypoints 3) (\<lambda>k3.
     bindE (getKeypoint keypoints 4) (\<lambda>k4.
     bindE (getKeypoint keypoints 5) (\<lambda>k5.
     bindE (getKeypoint keypoints 6) (\<lambda>k6.
     bindE (getKeypoint keypoints 7) (\<lambda>k7.
     bindE (getKeypoint keypoints 8) (\<lambda>k8.
     bindE (getKeypoint keypoints 9) (\<lambda>k9.
     bindE (getKeypoint keypoints 10) (\<lambda>k10.
     bindE (getKeypoint keypoints 11) (\<lambda>k11.
     bindE (getKeypoint keypoints 12) (\<lambda>k12.
     bindE (getKeypoint keypoints 13) (\<lambda>k13.
     bindE (getKeypoint keypoints 14) (\<lambda>k14.
     bindE (getKeypoint keypoints 15) (\<lambda>k15.
     bindE (getKeypoint keypoints 16) (\<lambda>k16.
     Inr \<lparr>nose = k0, leftEye = k1, rightEye = k2, leftEar = k3, rightEar = k4, leftShoulder = k5,
           rightShoulder = k6, leftElbow = k7, rightElbow = k8, leftWrist = k9, rightWrist = k10, leftHip = k11,
           rightHip = k12, leftKnee = k13, rightKnee = k14, leftAnkle = k15, rightAnkle = k16\<rparr>)))))))))))))))))"

definition averageLandmark :: "Landmark list \<Rightarrow> Landmark" where
  "averageLandmark landmarks =
     (let validLandmarks = filter (\<lambda>l. visibility l > 0.1) landmarks in
      if length validLandmarks = 0 then
        (case landmarks of
           [] \<Rightarrow> \<lparr>px = 0, py = 0, pz = 0, visibility = 0\<rparr>
         | l # _ \<Rightarrow> l)
      else
        \<lparr>px = foldl (\<lambda>sum l. sum + px l) 0 validLandmarks / real (length validLandmarks),
         py = foldl (\<lambda>sum l. sum + py l) 0 validLandmarks / real (length validLandmarks),
         pz = foldl (\<lambda>sum l. sum + pz l) 0 validLandmarks / real (length validLandmarks),
         visibility =
           foldl (\<lambda>sum l. sum + visibility l) 0 validLandmarks / real (length validLandmarks)\<rparr>)"

text \<open>
  \<^verbatim>\<open>smoothLandmarks\<close> reads \<^verbatim>\<open>this.landmarkHistory\<close>, oldest entry first.
  On an empty history \<^verbatim>\<open>this.landmarkHistory[0]\<close> is \<^verbatim>\<open>undefined\<close>, so the
  source evaluates \<^verbatim>\<open>this.extractLandmarks([])\<close>.
\<close>

definition smoothLandmarks :: "PoseLandmarks list \<Rightarrow> error + PoseLandmarks" where
  "smoothLandmarks landmarkHistory =
     (if length landmarkHistory = 0 then extractLandmarks []
      else if length landmarkHistory < 2
      then Inr (landmarkHistory ! (length landmarkHistory - 1))
      else Inr \<lparr>
              nose = averageLandmark (map nose landmarkHistory),
              leftEye = averageLandmark (map leftEye landmarkHistory),
              rightEye = averageLandmark (map rightEye landmarkHistory),
              leftEar = averageLandmark (map leftEar landmarkHistory),
              rightEar = averageLandmark (map rightEar landmarkHistory),
              leftShoulder = averageLandmark (map leftShoulder landmarkHistory),
              rightShoulder = averageLandmark (map rightShoulder landmarkHistory),
              leftElbow = averageLandmark (map leftElbow landmarkHistory),
              rightElbow = averageLandmark (map rightElbow landmarkHistory),
              leftWrist = averageLandmark (map leftWrist landmarkHistory),
              rightWrist = averageLandmark (map rightWrist landmarkHistory),
              leftHip = averageLandmark (map leftHip landmarkHistory),
              rightHip = averageLandmark (map rightHip landmarkHistory),
              leftKnee = averageLandmark (map leftKnee landmarkHistory),
              rightKnee = averageLandmark (map rightKnee landmarkHistory),
              leftAnkle = averageLandmark (map leftAnkle landmarkHistory),
              rightAnkle = averageLandmark (map rightAnkle landmarkHistory)\<rparr>)"

section \<open>Score smoothing\<close>

text \<open>
  Rounding to the nearest binary64 number, a tie going to the even significand: a real
  \<open>v\<close> in the binade of exponent \<open>e\<close> is rounded to a multiple of 2 to the \<open>e - 52\<close>,
  with the exponent held at -1022 for subnormal numbers. Overflow to Infinity is not
  modelled (it needs a magnitude of 2 to the 1024).
\<close>

definition exponent64 :: "real \<Rightarrow> int" where
  "exponent64 v = max \<lfloor>log 2 \<bar>v\<bar>\<rfloor> (- 1022)"

definition ulp64 :: "real \<Rightarrow> real" where
  "ulp64 v = 2 powr (of_int (exponent64 v) - 52)"

definition roundHalfEven :: "real \<Rightarrow> int" where
  "roundHalfEven q =
     (if q - of_int \<lfloor>q\<rfloor> < 1 / 2 then \<lfloor>q\<rfloor>
      else if q - of_int \<lfloor>q\<rfloor> > 1 / 2 then \<lfloor>q\<rfloor> + 1
      else if even \<lfloor>q\<rfloor> then \<lfloor>q\<rfloor> else \<lfloor>q\<rfloor> + 1)"

definition binary64 :: "real \<Rightarrow> real" where
  "binary64 v = (if v = 0 then 0 else of_int (roundHalfEven (v / ulp64 v)) * ulp64 v)"

text \<open>
  \<^verbatim>\<open>Math.round\<close>: the nearest integer, a tie going up. The result is an integer and
  needs no rounding of its own.
\<close>

definition jsRound :: "real \<Rightarrow> real" where
  "jsRound v = of_int \<lfloor>v + 1 / 2\<rfloor>"

text \<open>
  \<^verbatim>\<open>history.reduce((sum, analysis) => sum + analysis.field, 0) / history.length\<close>:
  each addition and the division are binary64 operations.
\<close>

definition average :: "(PostureAnalysis \<Rightarrow> real) \<Rightarrow> PostureAnalysis list \<Rightarrow> real" where
  "average field h =
     binary64 (foldl (\<lambda>sum analysis. binary64 (sum + field analysis)) 0 h / real (length h))"

text \<open>
  \<^verbatim>\<open>smoothPostureAnalysis\<close> reads \<^verbatim>\<open>this.postureHistory\<close> and
  \<^verbatim>\<open>this.currentAnalysis\<close> and rewrites \<^verbatim>\<open>this.issueConsistency\<close>. A metric is
  returned as \<^verbatim>\<open>Math.round(avg * 10) / 10\<close>: a binary64 product, the rounding to an
  integer, a binary64 quotient.
\<close>

definition smoothPostureAnalysis ::
    "PostureAnalysis list \<Rightarrow> PostureAnalysis option \<Rightarrow> counters \<Rightarrow> PostureAnalysis \<times> counters" where
  "smoothPostureAnalysis history current ic =
     (if length history = 0 then
        (case current of
           Some a \<Rightarrow> (a, ic)
         | None \<Rightarrow>
            (\<lparr>score = 85, issues = [''Initializing posture analysis...''], neckAngle = 0,
              shoulderAlignment = 0, spineAlignment = 0, headPosition = 0,
              shoulderHeight = 0\<rparr>, ic))
      else
        (let avgScore = average score history;
             avgNeckAngle = average neckAngle history;
             avgShoulderAlignment = average shoulderAlignment history;
             avgSpineAlignment = average spineAlignment history;
             avgHeadPosition = average headPosition history;
             avgShoulderHeight = average shoulderHeight history;
             latestAnalysis = history ! (length history - 1);
             ic1 = (if avgScore > 8.0 then [] else ic);
             ic2 = filter (\<lambda>(issue, count). count \<noteq> 0) ic1
         in (\<lparr>score = jsRound avgScore, issues = issues latestAnalysis,
              neckAngle = binary64 (jsRound (binary64 (avgNeckAngle * 10)) / 10),
              shoulderAlignment = binary64 (jsRound (binary64 (avgShoulderAlignment * 10)) / 10),
              spineAlignment = binary64 (jsRound (binary64 (avgSpineAlignment * 10)) / 10),
              headPosition = binary64 (jsRound (binary64 (avgHeadPosition * 10)) / 10),
              shoulderHeight = binary64 (jsRound (binary64 (avgShoulderHeight * 10)) / 10)\<rparr>,
             ic2)))"

section \<open>Engine state, detection loop and stop\<close>

text \<open>
  \<^verbatim>\<open>this.animationFrame\<close> holds the number returned by \<^verbatim>\<open>setTimeout\<close> or by
  \<^verbatim>\<open>requestAnimationFrame\<close>; the constructor of \<open>handle\<close> records which of the
  two produced it (the source forgets this with \<^verbatim>\<open>as any\<close>).
\<close>

datatype handle = TimeoutId nat | FrameId nat

fun handleId :: "handle \<Rightarrow> nat" where
  "handleId (TimeoutId n) = n"
| "handleId (FrameId n) = n"

datatype cancel = ClearTimeout nat | CancelAnimationFrame nat

record Service =
  isInitialized :: bool
  currentAnalysis :: "PostureAnalysis option"
  animationFrame :: "handle option"
  lastUpdateTime :: int
  isPageVisible :: bool
  postureHistory :: "PostureAnalysis list"
  landmarkHistory :: "PoseLandmarks list"
  issueConsistency :: counters

text \<open>\<^verbatim>\<open>history.push(v); if (history.length > w) history.shift()\<close>\<close>

definition pushWindow :: "nat \<Rightarrow> 'a \<Rightarrow> 'a list \<Rightarrow> 'a list" where
  "pushWindow w v h = (let h' = h @ [v] in if length h' > w then tl h' else h')"

text \<open>
  The body of \<^verbatim>\<open>detectPose\<close> inside its \<^verbatim>\<open>try\<close>, with the detector and the
  video element present. \<open>estimate\<close> is what \<^verbatim>\<open>estimatePoses\<close> delivered (each pose
  as its keypoint array) or the error it raised, \<open>now\<close> is the value of
  \<^verbatim>\<open>Date.now()\<close>. An exception leaves the state as it was when it was raised. The
  second component is the analysis handed to \<^verbatim>\<open>onPostureUpdate\<close>, if any; the
  callback is taken to return normally.
\<close>

definition processFrame ::
    "error + Keypoint list list \<Rightarrow> int \<Rightarrow> Service \<Rightarrow> Service \<times> PostureAnalysis option" where
  "processFrame estimate now s =
     (case estimate of
        Inl e \<Rightarrow> (s, None)
      | Inr [] \<Rightarrow> (s, None)
      | Inr (pose # _) \<Rightarrow>
         (case extractLandmarks pose of
            Inl e \<Rightarrow> (s, None)
          | Inr rawLandmarks \<Rightarrow>
             (let s1 = s\<lparr>landmarkHistory :=
                          pushWindow LANDMARK_SMOOTHING_WINDOW rawLandmarks (landmarkHistory s)\<rparr>
              in case smoothLandmarks (landmarkHistory s1) of
                   Inl e \<Rightarrow> (s1, None)
                 | Inr landmarks \<Rightarrow>
                    (let r = analyzePosture landmarks (issueConsistency s1);
                         s2 = s1\<lparr>issueConsistency := snd r,
                                 postureHistory :=
                                   pushWindow SMOOTHING_WINDOW (fst r) (postureHistory s1)\<rparr>
                     in if now - lastUpdateTime s2 \<ge> UPDATE_INTERVAL then
                          (let sm = smoothPostureAnalysis (postureHistory s2)
                                      (currentAnalysis s2) (issueConsistency s2)
                           in (s2\<lparr>issueConsistency := snd sm,
                                   currentAnalysis := Some (fst sm),
                                   lastUpdateTime := now\<rparr>, Some (fst sm)))
                        else (s2, None)))))"

text \<open>
  The loop continues after the \<^verbatim>\<open>try\<close>: a timeout when the page is hidden, an
  animation frame otherwise; \<open>newId\<close> is the number the browser returns.
\<close>

definition reschedule :: "nat \<Rightarrow> Service \<Rightarrow> Service" where
  "reschedule newId s =
     s\<lparr>animationFrame :=
         Some (if \<not> isPageVisible s then TimeoutId newId else FrameId newId)\<rparr>"

definition detectPose ::
    "error + Keypoint list list \<Rightarrow> int \<Rightarrow> nat \<Rightarrow> Service \<Rightarrow> Service \<times> PostureAnalysis option" where
  "detectPose estimate now newId s =
     (let r = processFrame estimate now s in (reschedule newId (fst r), snd r))"

text \<open>
  \<^verbatim>\<open>stop\<close>: the handle is tested for truthiness (neither \<^verbatim>\<open>null\<close> nor 0); the
  second component lists the cancellation calls made.
\<close>

definition stop :: "Service \<Rightarrow> Service \<times> cancel list" where
  "stop s =
     (case animationFrame s of
        None \<Rightarrow> (s\<lparr>currentAnalysis := None, isInitialized := False\<rparr>, [])
      | Some h \<Rightarrow>
         if handleId h = 0 then (s\<lparr>currentAnalysis := None, isInitialized := False\<rparr>, [])
         else (s\<lparr>animationFrame := None, currentAnalysis := None, isInitialized := False\<rparr>,
               [if \<not> isPageVisible s then ClearTimeout (handleId h)
                else CancelAnimationFrame (handleId h)]))"

text \<open>The state of a freshly constructed service.\<close>

definition initialService :: Service where
  "initialService =
     \<lparr>isInitialized = False, currentAnalysis = None, animationFrame = None,
      lastUpdateTime = 0, isPageVisible = True, postureHistory = [],
      landmarkHistory = [], issueConsistency = []\<rparr>"

section \<open>Auxiliary notions and example inputs\<close>

text \<open>
  The counter of an issue: \<^verbatim>\<open>this.issueConsistency[issue] || 0\<close>. An issue is tracked
  when it is a key of the dictionary.
\<close>

definition counter :: "string \<Rightarrow> counters \<Rightarrow> int" where
  "counter issue ic = (case map_of ic issue of Some c \<Rightarrow> c | None \<Rightarrow> 0)"

definition tracked :: "string \<Rightarrow> counters \<Rightarrow> bool" where
  "tracked issue ic = (issue \<in> fst ` set ic)"

text \<open>A frame whose seventeen joints all carry the same landmark.\<close>

definition uniformFrame :: "Landmark \<Rightarrow> PoseLandmarks" where
  "uniformFrame l =
     \<lparr>nose = l, leftEye = l, rightEye = l, leftEar = l, rightEar = l, leftShoulder = l,
      rightShoulder = l, leftElbow = l, rightElbow = l, leftWrist = l, rightWrist = l,
      leftHip = l, rightHip = l, leftKnee = l, rightKnee = l, leftAnkle = l,
      rightAnkle = l\<rparr>"

definition seenFrame :: PoseLandmarks where
  "seenFrame = uniformFrame \<lparr>px = 0.5, py = 0.5, pz = 0, visibility = 0.9\<rparr>"

definition unseenFrame :: PoseLandmarks where
  "unseenFrame = uniformFrame \<lparr>px = 0.5, py = 0.5, pz = 0, visibility = 0.05\<rparr>"

definition farFrame :: PoseLandmarks where
  "farFrame = uniformFrame \<lparr>px = 0.5, py = 0.5, pz = 0, visibility = 0.15\<rparr>"

text \<open>
  A run of the detection loop: each tick carries what the detector delivered, the clock
  reading and the number of the callback scheduled next. \<open>runDetection\<close> is the state
  after the ticks, \<open>publications\<close> the analyses handed to \<^verbatim>\<open>onPostureUpdate\<close>,
  each with the clock reading of its tick.
\<close>

type_synonym tick = "(error + Keypoint list list) \<times> int \<times> nat"

fun runDetection :: "tick list \<Rightarrow> Service \<Rightarrow> Service" where
  "runDetection [] s = s"
| "runDetection ((estimate, now, newId) # ticks) s =
     runDetection ticks (fst (detectPose estimate now newId s))"

fun publications :: "tick list \<Rightarrow> Service \<Rightarrow> (int \<times> PostureAnalysis) list" where
  "publications [] s = []"
| "publications ((estimate, now, newId) # ticks) s =
     (case snd (detectPose estimate now newId s) of
        None \<Rightarrow> publications ticks (fst (detectPose estimate now newId s))
      | Some a \<Rightarrow> (now, a) # publications ticks (fst (detectPose estimate now newId s)))"


definition historyAfter :: "PostureAnalysis list \<Rightarrow> PostureAnalysis list" where
  "historyAfter analyses = foldl (\<lambda>h a. pushWindow SMOOTHING_WINDOW a h) [] analyses"

text \<open>The arithmetic mean of a field over a list of records.\<close>

definition mean :: "('a \<Rightarrow> real) \<Rightarrow> 'a list \<Rightarrow> real" where
  "mean field xs = sum_list (map field xs) / real (length xs)"

text \<open>An analysis with score 8: two flat penalties of 1 taken from 10.\<close>

definition analysisEight :: PostureAnalysis where
  "analysisEight =
     \<lparr>score = 8, issues = [''Excellent posture! Keep it up!''], neckAngle = 0,
      shoulderAlignment = 0, spineAlignment = 45, headPosition = 0, shoulderHeight = 0\<rparr>"




text \<open>
  A tick completes its per-frame analysis when the detector delivered at least one pose
  and the first pose carries the seventeen keypoints.
\<close>

definition analysisCompletes :: "error + Keypoint list list \<Rightarrow> bool" where
  "analysisCompletes estimate =
     (case estimate of
        Inl e \<Rightarrow> False
      | Inr [] \<Rightarrow> False
      | Inr (pose # _) \<Rightarrow> 17 \<le> length pose)"

text \<open>The handler of \<^verbatim>\<open>visibilitychange\<close>: \<^verbatim>\<open>this.isPageVisible = !document.hidden\<close>.\<close>

definition visibilityChange :: "bool \<Rightarrow> Service \<Rightarrow> Service" where
  "visibilityChange hidden s = s\<lparr>isPageVisible := \<not> hidden\<rparr>"

text \<open>A detector result with one pose of seventeen unseen keypoints.\<close>

definition unseenPose :: "error + Keypoint list list" where
  "unseenPose = Inr [replicate 17 \<lparr>kx = 0.5, ky = 0.5, kscore = 0.05\<rparr>]"

text \<open>
  An analysis with score 9 and a neck angle below the first threshold, and a run of
  thirteen analyses: one degraded to score 5, six degraded to score 7.5, six of the
  former kind.
\<close>

definition analysisLeaning :: PostureAnalysis where
  "analysisLeaning =
     \<lparr>score = 9, issues = [''Excellent posture! Keep it up!''], neckAngle = 16.5,
      shoulderAlignment = 0, spineAlignment = 0, headPosition = 0, shoulderHeight = 0\<rparr>"

definition exampleAnalyses :: "PostureAnalysis list" where
  "exampleAnalyses =
     [fst (analyzePosture farFrame []),
      fst (analyzePosture unseenFrame []), fst (analyzePosture unseenFrame []),
      fst (analyzePosture unseenFrame []), fst (analyzePosture unseenFrame []),
      fst (analyzePosture unseenFrame []), fst (analyzePosture unseenFrame []),
      analysisLeaning, analysisLeaning, analysisLeaning,
      analysisLeaning, analysisLeaning, analysisLeaning]"

text \<open>
  Analyses whose scores are the binary64 numbers written \<^verbatim>\<open>5.3\<close>,
  \<^verbatim>\<open>7.699999999999999\<close>, \<^verbatim>\<open>7.700000000000001\<close> and \<^verbatim>\<open>8.3\<close> in JavaScript,
  each given by its significand and its power of two.
\<close>

definition scoredAnalysis :: "real \<Rightarrow> PostureAnalysis" where
  "scoredAnalysis v =
     \<lparr>score = v, issues = [], neckAngle = 0, shoulderAlignment = 0, spineAlignment = 0,
      headPosition = 0, shoulderHeight = 0\<rparr>"

definition analysisLow :: PostureAnalysis where
  "analysisLow = scoredAnalysis (5967269506265907 / 2 ^ 50)"

definition analysisMid :: PostureAnalysis where
  "analysisMid = scoredAnalysis (8669429282688204 / 2 ^ 50)"

definition analysisHighA :: PostureAnalysis where
  "analysisHighA = scoredAnalysis (8669429282688206 / 2 ^ 50)"

definition analysisHighB :: PostureAnalysis where
  "analysisHighB = scoredAnalysis (4672484613396890 / 2 ^ 49)"

section \<open>Properties of the per-frame analysis\<close>

subsection \<open>Metrics returned by the per-frame analysis\<close>

lemma analyzePosture_metrics:
  "neckAngle (fst (analyzePosture lm ic)) = (if visibleLandmarks lm < 2 then 0 else calculateNeckAngle lm)"
  "shoulderAlignment (fst (analyzePosture lm ic)) = (if visibleLandmarks lm < 2 then 0 else calculateShoulderAlignment lm)"
  "spineAlignment (fst (analyzePosture lm ic)) = (if visibleLandmarks lm < 2 then 0 else calculateSpineAlignment lm)"
  "headPosition (fst (analyzePosture lm ic)) = (if visibleLandmarks lm < 2 then 0 else calculateHeadPosition lm)"
  "shoulderHeight (fst (analyzePosture lm ic)) = (if visibleLandmarks lm < 2 then 0 else calculateShoulderHeight lm)"
  by (simp_all add: analyzePosture_def Let_def)

lemma analyzePosture_score:
  "visibleLandmarks lm \<ge> 2 \<Longrightarrow>
     score (fst (analyzePosture lm ic)) = max 2 (min 10 (snd (detectIssues lm)))"
  by (simp add: analyzePosture_def Let_def)

lemma analyzePosture_counters:
  "visibleLandmarks lm \<ge> 2 \<Longrightarrow>
     snd (analyzePosture lm ic) =
       increaseDetected (fst (detectIssues lm)) (decreaseAbsent (fst (detectIssues lm)) ic)"
  by (simp add: analyzePosture_def Let_def)

lemma analyzePosture_issues:
  "visibleLandmarks lm \<ge> 2 \<Longrightarrow>
     issues (fst (analyzePosture lm ic)) =
       consistentIssues (fst (detectIssues lm)) (snd (analyzePosture lm ic)) @
       positiveFeedback (snd (detectIssues lm))"
  by (simp add: analyzePosture_def Let_def)

lemma neck_zero: "visibility (nose lm) < 0.5 \<or> visibility (leftEar lm) < 0.5 \<or> visibility (leftShoulder lm) < 0.5 \<Longrightarrow> calculateNeckAngle lm = 0"
  by (simp add: calculateNeckAngle_def Let_def)

lemma shoulderAlignment_zero: "visibility (leftShoulder lm) < 0.5 \<or> visibility (rightShoulder lm) < 0.5 \<Longrightarrow> calculateShoulderAlignment lm = 0"
  by (simp add: calculateShoulderAlignment_def Let_def)

lemma spine_zero: "visibility (leftShoulder lm) < 0.5 \<or> visibility (rightShoulder lm) < 0.5 \<or> visibility (leftHip lm) < 0.5 \<or> visibility (rightHip lm) < 0.5 \<Longrightarrow> calculateSpineAlignment lm = 0"
  by (simp add: calculateSpineAlignment_def Let_def)

lemma headPosition_zero: "visibility (leftEar lm) < 0.5 \<or> visibility (rightEar lm) < 0.5 \<or> visibility (nose lm) < 0.5 \<Longrightarrow> calculateHeadPosition lm = 0"
  by (simp add: calculateHeadPosition_def Let_def)

lemma shoulderHeight_zero: "visibility (leftShoulder lm) < 0.5 \<or> visibility (rightShoulder lm) < 0.5 \<Longrightarrow> calculateShoulderHeight lm = 0"
  by (simp add: calculateShoulderHeight_def Let_def)

lemma analyzePosture_gated:
  "visibleLandmarks lm < 2 \<Longrightarrow>
     analyzePosture lm ic =
       (if visibility (leftShoulder lm) > 0.1 \<and> visibility (rightShoulder lm) > 0.1 \<and>
           shoulderDistance (leftShoulder lm) (rightShoulder lm) < 0.1
        then \<lparr>score = 5, issues = [tooFarMessage], neckAngle = 0, shoulderAlignment = 0,
               spineAlignment = 0, headPosition = 0, shoulderHeight = 0\<rparr>
        else \<lparr>score = 7.5, issues = [repositionMessage], neckAngle = 0,
               shoulderAlignment = 0, spineAlignment = 0, headPosition = 0,
               shoulderHeight = 0\<rparr>, ic)"
  by (simp add: analyzePosture_def Let_def)

lemma seenFrame_visible: "visibleLandmarks seenFrame = 3"
  by (simp add: visibleLandmarks_def seenFrame_def uniformFrame_def)

lemma unseenFrame_visible: "visibleLandmarks unseenFrame = 0"
  by (simp add: visibleLandmarks_def unseenFrame_def uniformFrame_def)

lemma farFrame_visible: "visibleLandmarks farFrame = 0"
  by (simp add: visibleLandmarks_def farFrame_def uniformFrame_def)

lemma seenFrame_detectIssues:
  "detectIssues seenFrame = ([''head_neck_alignment'', ''too_far_from_camera''], 7)"
  by (simp add: detectIssues_def seenFrame_def uniformFrame_def calculateNeckAngle_def
      calculateShoulderAlignment_def calculateHeadPosition_def calculateShoulderHeight_def
      calculateSpineAlignment_def detectSlouching_def calculateHeadNeckScore_def
      detectTooCloseToCamera_def detectTooFarFromCamera_def shoulderDistance_def
      noseToShoulderDistance_def atan2_def checkForwardHead_def checkShoulderAlignment_def
      checkHeadTilt_def checkShoulderHeight_def checkSpineAlignment_def checkSlouching_def
      checkHeadNeck_def checkTooClose_def checkTooFar_def flag_def Let_def)

lemma farFrame_analysis:
  "analyzePosture farFrame ic =
     (\<lparr>score = 5, issues = [tooFarMessage], neckAngle = 0, shoulderAlignment = 0,
       spineAlignment = 0, headPosition = 0, shoulderHeight = 0\<rparr>, ic)"
  by (simp add: analyzePosture_gated farFrame_visible)
     (simp add: farFrame_def uniformFrame_def shoulderDistance_def)

lemma unseenFrame_analysis:
  "analyzePosture unseenFrame ic =
     (\<lparr>score = 7.5, issues = [repositionMessage], neckAngle = 0, shoulderAlignment = 0,
       spineAlignment = 0, headPosition = 0, shoulderHeight = 0\<rparr>, ic)"
  by (simp add: analyzePosture_gated unseenFrame_visible)
     (simp add: unseenFrame_def uniformFrame_def)

subsection \<open>Checks\<close>

lemma flag_simps [simp]: "fst (flag k p s) = fst s @ [k]" "snd (flag k p s) = snd s - p"
  by (simp_all add: flag_def)

lemma checkForwardHead_le: "snd (checkForwardHead a s) \<le> snd s"
  by (simp add: checkForwardHead_def)
lemma checkShoulderAlignment_le: "snd (checkShoulderAlignment a s) \<le> snd s"
  by (simp add: checkShoulderAlignment_def)
lemma checkHeadTilt_le: "snd (checkHeadTilt a s) \<le> snd s"
  by (simp add: checkHeadTilt_def)
lemma checkShoulderHeight_le: "snd (checkShoulderHeight a s) \<le> snd s"
  by (simp add: checkShoulderHeight_def)
lemma checkSpineAlignment_le: "snd (checkSpineAlignment a s) \<le> snd s"
  by (simp add: checkSpineAlignment_def)
lemma checkSlouching_le: "snd (checkSlouching b s) \<le> snd s"
  by (simp add: checkSlouching_def)
lemma checkTooClose_le: "snd (checkTooClose b s) \<le> snd s"
  by (simp add: checkTooClose_def)
lemma checkTooFar_le: "snd (checkTooFar b s) \<le> snd s"
  by (simp add: checkTooFar_def)

lemma three_penalties_le:
  fixes p1 p2 p3 :: real
  assumes "0 \<le> p1" "0 \<le> p2" "0 \<le> p3"
  shows "(if c3 then (if c2 then (if c1 then 10 - p1 else 10) - p2
                     else (if c1 then 10 - p1 else 10)) - p3
          else (if c2 then (if c1 then 10 - p1 else 10) - p2
                else (if c1 then 10 - p1 else 10))) \<le> 10"
  using assms by auto

lemma floor_zero_range:
  "v \<le> 10 \<Longrightarrow> 0 \<le> (if c then 0 else max 0 v) \<and> (if c then 0 else max 0 v) \<le> (10::real)"
  by simp

lemma headNeckScore_range: "0 \<le> calculateHeadNeckScore lm \<and> calculateHeadNeckScore lm \<le> 10"
  unfolding calculateHeadNeckScore_def Let_def
  by (rule floor_zero_range, rule three_penalties_le) simp_all

lemma checkHeadNeck_flags:
  "checkHeadNeck (calculateHeadNeckScore lm) s = flag ''head_neck_alignment'' 1 s"
  using headNeckScore_range [of lm] by (simp add: checkHeadNeck_def)

lemma checkTooClose_keeps: "k \<in> set (fst s) \<Longrightarrow> k \<in> set (fst (checkTooClose b s))"
  by (simp add: checkTooClose_def)
lemma checkTooFar_keeps: "k \<in> set (fst s) \<Longrightarrow> k \<in> set (fst (checkTooFar b s))"
  by (simp add: checkTooFar_def)

lemma head_neck_in_potential: "''head_neck_alignment'' \<in> set (fst (detectIssues lm))"
  by (simp add: detectIssues_def Let_def checkHeadNeck_flags checkTooClose_keeps checkTooFar_keeps)

lemma totalScore_le_9: "snd (detectIssues lm) \<le> 9"
proof -
  let ?s1 = "checkForwardHead (calculateNeckAngle lm) ([], 10)"
  let ?s2 = "checkShoulderAlignment (calculateShoulderAlignment lm) ?s1"
  let ?s3 = "checkHeadTilt (calculateHeadPosition lm) ?s2"
  let ?s4 = "checkShoulderHeight (calculateShoulderHeight lm) ?s3"
  let ?s5 = "checkSpineAlignment (calculateSpineAlignment lm) ?s4"
  let ?s6 = "checkSlouching (detectSlouching lm) ?s5"
  let ?s7 = "checkHeadNeck (calculateHeadNeckScore lm) ?s6"
  let ?s8 = "checkTooClose (detectTooCloseToCamera lm) ?s7"
  let ?s9 = "checkTooFar (detectTooFarFromCamera lm) ?s8"
  have "snd ?s1 \<le> 10" using checkForwardHead_le [of _ "([], 10)"] by simp
  then have "snd ?s2 \<le> 10" using checkShoulderAlignment_le [of _ ?s1] by (rule order_trans [rotated])
  then have "snd ?s3 \<le> 10" using checkHeadTilt_le [of _ ?s2] by (rule order_trans [rotated])
  then have "snd ?s4 \<le> 10" using checkShoulderHeight_le [of _ ?s3] by (rule order_trans [rotated])
  then have "snd ?s5 \<le> 10" using checkSpineAlignment_le [of _ ?s4] by (rule order_trans [rotated])
  then have "snd ?s6 \<le> 10" using checkSlouching_le [of _ ?s5] by (rule order_trans [rotated])
  then have "snd ?s7 \<le> 9" by (simp add: checkHeadNeck_flags)
  then have "snd ?s8 \<le> 9" using checkTooClose_le [of _ ?s7] by (rule order_trans [rotated])
  then have "snd ?s9 \<le> 9" using checkTooFar_le [of _ ?s8] by (rule order_trans [rotated])
  then show ?thesis by (simp add: detectIssues_def Let_def)
qed

subsection \<open>Potential issues are flagged at most once\<close>

lemma two_tier_keys:
  assumes "distinct (fst s) \<and> set (fst s) \<subseteq> set ks" and "k1 \<notin> set ks \<and> k2 \<notin> set ks"
  shows "distinct (fst (if c1 then flag k1 p1 s else if c2 then flag k2 p2 s else s)) \<and>
         set (fst (if c1 then flag k1 p1 s else if c2 then flag k2 p2 s else s))
           \<subseteq> set (ks @ [k1, k2])"
  using assms by auto

lemma one_tier_keys:
  assumes "distinct (fst s) \<and> set (fst s) \<subseteq> set ks" and "k1 \<notin> set ks"
  shows "distinct (fst (if c1 then flag k1 p1 s else s)) \<and>
         set (fst (if c1 then flag k1 p1 s else s)) \<subseteq> set (ks @ [k1])"
  using assms by auto

lemma detectIssues_distinct: "distinct (fst (detectIssues lm))"
proof -
  let ?s1 = "checkForwardHead (calculateNeckAngle lm) ([], 10)"
  let ?s2 = "checkShoulderAlignment (calculateShoulderAlignment lm) ?s1"
  let ?s3 = "checkHeadTilt (calculateHeadPosition lm) ?s2"
  let ?s4 = "checkShoulderHeight (calculateShoulderHeight lm) ?s3"
  let ?s5 = "checkSpineAlignment (calculateSpineAlignment lm) ?s4"
  let ?s6 = "checkSlouching (detectSlouching lm) ?s5"
  let ?s7 = "checkHeadNeck (calculateHeadNeckScore lm) ?s6"
  let ?s8 = "checkTooClose (detectTooCloseToCamera lm) ?s7"
  let ?s9 = "checkTooFar (detectTooFarFromCamera lm) ?s8"
  have k0: "distinct (fst ([]::string list, 10::real)) \<and> set (fst ([]::string list, 10::real)) \<subseteq> set []"
    by simp
  have f1: "''forward_head'' \<notin> set ([]) \<and> ''slight_forward_head'' \<notin> set ([])"
    by simp
  have k1: "distinct (fst ?s1) \<and> set (fst ?s1) \<subseteq> set (([]) @ [''forward_head'', ''slight_forward_head''])"
    unfolding checkForwardHead_def by (rule two_tier_keys [OF k0 f1])
  have f2: "''uneven_shoulders'' \<notin> set (([]) @ [''forward_head'', ''slight_forward_head'']) \<and> ''slight_shoulder_imbalance'' \<notin> set (([]) @ [''forward_head'', ''slight_forward_head''])"
    by simp
  have k2: "distinct (fst ?s2) \<and> set (fst ?s2) \<subseteq> set ((([]) @ [''forward_head'', ''slight_forward_head'']) @ [''uneven_shoulders'', ''slight_shoulder_imbalance''])"
    unfolding checkShoulderAlignment_def by (rule two_tier_keys [OF k1 f2])
  have f3: "''head_tilt'' \<notin> set ((([]) @ [''forward_head'', ''slight_forward_head'']) @ [''uneven_shoulders'', ''slight_shoulder_imbalance'']) \<and> ''slight_head_tilt'' \<notin> set ((([]) @ [''forward_head'', ''slight_forward_head'']) @ [''uneven_shoulders'', ''slight_shoulder_imbalance''])"
    by simp
  have k3: "distinct (fst ?s3) \<and> set (fst ?s3) \<subseteq> set (((([]) @ [''forward_head'', ''slight_forward_head'']) @ [''uneven_shoulders'', ''slight_shoulder_imbalance'']) @ [''head_tilt'', ''slight_head_tilt''])"
    unfolding checkHeadTilt_def by (rule two_tier_keys [OF k2 f3])
  have f4: "''shoulder_height_imbalance'' \<notin> set (((([]) @ [''forward_head'', ''slight_forward_head'']) @ [''uneven_shoulders'', ''slight_shoulder_imbalance'']) @ [''head_tilt'', ''slight_head_tilt'']) \<and> ''slight_shoulder_height'' \<notin> set (((([]) @ [''forward_head'', ''slight_forward_head'']) @ [''uneven_shoulders'', ''slight_shoulder_imbalance'']) @ [''head_tilt'', ''slight_head_tilt''])"
    by simp
  have k4: "distinct (fst ?s4) \<and> set (fst ?s4) \<subseteq> set ((((([]) @ [''forward_head'', ''slight_forward_head'']) @ [''uneven_shoulders'', ''slight_shoulder_imbalance'']) @ [''head_tilt'', ''slight_head_tilt'']) @ [''shoulder_height_imbalance'', ''slight_shoulder_height''])"
    unfolding checkShoulderHeight_def by (rule two_tier_keys [OF k3 f4])
  have f5: "''spine_alignment'' \<notin> set ((((([]) @ [''forward_head'', ''slight_forward_head'']) @ [''uneven_shoulders'', ''slight_shoulder_imbalance'']) @ [''head_tilt'', ''slight_head_tilt'']) @ [''shoulder_height_imbalance'', ''slight_shoulder_height'']) \<and> ''slight_spine_deviation'' \<notin> set ((((([]) @ [''forward_head'', ''slight_forward_head'']) @ [''uneven_shoulders'', ''slight_shoulder_imbalance'']) @ [''head_tilt'', ''slight_head_tilt'']) @ [''shoulder_height_imbalance'', ''slight_shoulder_height''])"
    by simp
  have k5: "distinct (fst ?s5) \<and> set (fst ?s5) \<subseteq> set (((((([]) @ [''forward_head'', ''slight_forward_head'']) @ [''uneven_shoulders'', ''slight_shoulder_imbalance'']) @ [''head_tilt'', ''slight_head_tilt'']) @ [''shoulder_height_imbalance'', ''slight_shoulder_height'']) @ [''spine_alignment'', ''slight_spine_deviation''])"
    unfolding checkSpineAlignment_def by (rule two_tier_keys [OF k4 f5])
  have f6: "''slouching'' \<notin> set (((((([]) @ [''forward_head'', ''slight_forward_head'']) @ [''uneven_shoulders'', ''slight_shoulder_imbalance'']) @ [''head_tilt'', ''slight_head_tilt'']) @ [''shoulder_height_imbalance'', ''slight_shoulder_height'']) @ [''spine_alignment'', ''slight_spine_deviation''])"
    by simp
  have k6: "distinct (fst ?s6) \<and> set (fst ?s6) \<subseteq> set ((((((([]) @ [''forward_head'', ''slight_forward_head'']) @ [''uneven_shoulders'', ''slight_shoulder_imbalance'']) @ [''head_tilt'', ''slight_head_tilt'']) @ [''shoulder_height_imbalance'', ''slight_shoulder_height'']) @ [''spine_alignment'', ''slight_spine_deviation'']) @ [''slouching''])"
    unfolding checkSlouching_def by (rule one_tier_keys [OF k5 f6])
  have f7: "''head_neck_alignment'' \<notin> set ((((((([]) @ [''forward_head'', ''slight_forward_head'']) @ [''uneven_shoulders'', ''slight_shoulder_imbalance'']) @ [''head_tilt'', ''slight_head_tilt'']) @ [''shoulder_height_imbalance'', ''slight_shoulder_height'']) @ [''spine_alignment'', ''slight_spine_deviation'']) @ [''slouching'']) \<and> ''slight_head_neck'' \<notin> set ((((((([]) @ [''forward_head'', ''slight_forward_head'']) @ [''uneven_shoulders'', ''slight_shoulder_imbalance'']) @ [''head_tilt'', ''slight_head_tilt'']) @ [''shoulder_height_imbalance'', ''slight_shoulder_height'']) @ [''spine_alignment'', ''slight_spine_deviation'']) @ [''slouching''])"
    by simp
  have k7: "distinct (fst ?s7) \<and> set (fst ?s7) \<subseteq> set (((((((([]) @ [''forward_head'', ''slight_forward_head'']) @ [''uneven_shoulders'', ''slight_shoulder_imbalance'']) @ [''head_tilt'', ''slight_head_tilt'']) @ [''shoulder_height_imbalance'', ''slight_shoulder_height'']) @ [''spine_alignment'', ''slight_spine_deviation'']) @ [''slouching'']) @ [''head_neck_alignment'', ''slight_head_neck''])"
    unfolding checkHeadNeck_def by (rule two_tier_keys [OF k6 f7])
  have f8: "''too_close_to_camera'' \<notin> set (((((((([]) @ [''forward_head'', ''slight_forward_head'']) @ [''uneven_shoulders'', ''slight_shoulder_imbalance'']) @ [''head_tilt'', ''slight_head_tilt'']) @ [''shoulder_height_imbalance'', ''slight_shoulder_height'']) @ [''spine_alignment'', ''slight_spine_deviation'']) @ [''slouching'']) @ [''head_neck_alignment'', ''slight_head_neck''])"
    by simp
  have k8: "distinct (fst ?s8) \<and> set (fst ?s8) \<subseteq> set ((((((((([]) @ [''forward_head'', ''slight_forward_head'']) @ [''uneven_shoulders'', ''slight_shoulder_imbalance'']) @ [''head_tilt'', ''slight_head_tilt'']) @ [''shoulder_height_imbalance'', ''slight_shoulder_height'']) @ [''spine_alignment'', ''slight_spine_deviation'']) @ [''slouching'']) @ [''head_neck_alignment'', ''slight_head_neck'']) @ [''too_close_to_camera''])"
    unfolding checkTooClose_def by (rule one_tier_keys [OF k7 f8])
  have f9: "''too_far_from_camera'' \<notin> set ((((((((([]) @ [''forward_head'', ''slight_forward_head'']) @ [''uneven_shoulders'', ''slight_shoulder_imbalance'']) @ [''head_tilt'', ''slight_head_tilt'']) @ [''shoulder_height_imbalance'', ''slight_shoulder_height'']) @ [''spine_alignment'', ''slight_spine_deviation'']) @ [''slouching'']) @ [''head_neck_alignment'', ''slight_head_neck'']) @ [''too_close_to_camera''])"
    by simp
  have k9: "distinct (fst ?s9) \<and> set (fst ?s9) \<subseteq> set (((((((((([]) @ [''forward_head'', ''slight_forward_head'']) @ [''uneven_shoulders'', ''slight_shoulder_imbalance'']) @ [''head_tilt'', ''slight_head_tilt'']) @ [''shoulder_height_imbalance'', ''slight_shoulder_height'']) @ [''spine_alignment'', ''slight_spine_deviation'']) @ [''slouching'']) @ [''head_neck_alignment'', ''slight_head_neck'']) @ [''too_close_to_camera'']) @ [''too_far_from_camera''])"
    unfolding checkTooFar_def by (rule one_tier_keys [OF k8 f9])
  from conjunct1 [OF k9] show ?thesis
    by (simp only: detectIssues_def Let_def)
qed

subsection \<open>Consistency counters\<close>

lemma counter_Nil [simp]: "counter k [] = 0"
  by (simp add: counter_def)

lemma counter_Cons [simp]: "counter k ((j, c) # ic) = (if k = j then c else counter k ic)"
  by (simp add: counter_def)

lemma tracked_iff: "tracked k ic \<longleftrightarrow> k \<in> set (map fst ic)"
  by (simp add: tracked_def)

lemma counter_decreaseAbsent:
  "counter k (decreaseAbsent potential ic) =
     (if k \<in> set potential then counter k ic else max 0 (counter k ic - 3))"
  by (induction ic) (auto simp: decreaseAbsent_def)

lemma keys_decreaseAbsent [simp]: "map fst (decreaseAbsent potential ic) = map fst ic"
  by (induction ic) (auto simp: decreaseAbsent_def)

lemma counter_increaseCounter:
  "counter k (increaseCounter j ic) = (if k = j then counter k ic + 1 else counter k ic)"
  by (induction ic) auto

lemma map_fst_increaseCounter:
  "map fst (increaseCounter j ic) =
     (if j \<in> set (map fst ic) then map fst ic else map fst ic @ [j])"
  by (induction ic) (force simp: image_iff)+

lemma keys_increaseCounter:
  "set (map fst (increaseCounter j ic)) = insert j (set (map fst ic))"
  by (auto simp: map_fst_increaseCounter simp del: set_map)

lemma distinct_increaseCounter:
  "distinct (map fst ic) \<Longrightarrow> distinct (map fst (increaseCounter j ic))"
  by (simp add: map_fst_increaseCounter del: set_map)

lemma counter_increaseDetected:
  "distinct potential \<Longrightarrow>
     counter k (increaseDetected potential ic) =
       (if k \<in> set potential then counter k ic + 1 else counter k ic)"
  unfolding increaseDetected_def
  by (induction potential arbitrary: ic) (auto simp: counter_increaseCounter)

lemma keys_increaseDetected:
  "set (map fst (increaseDetected potential ic)) = set potential \<union> set (map fst ic)"
  unfolding increaseDetected_def
  by (induction potential arbitrary: ic) (auto simp: keys_increaseCounter simp del: set_map)

lemma distinct_increaseDetected:
  "distinct (map fst ic) \<Longrightarrow> distinct (map fst (increaseDetected potential ic))"
  unfolding increaseDetected_def
  by (induction potential arbitrary: ic) (auto simp: distinct_increaseCounter)

lemma counter_ge_iff:
  "distinct (map fst ic) \<Longrightarrow> 0 < n \<Longrightarrow>
     (n \<le> counter k ic) = (\<exists>c. (k, c) \<in> set ic \<and> n \<le> c)"
  by (induction ic) (auto simp: rev_image_eqI split: if_splits)

lemma counter_after_frame:
  assumes "visibleLandmarks lm \<ge> 2"
  shows "counter k (snd (analyzePosture lm ic)) =
           (if k \<in> set (fst (detectIssues lm)) then counter k ic + 1
            else max 0 (counter k ic - 3))"
  using assms
  by (simp add: analyzePosture_counters counter_increaseDetected [OF detectIssues_distinct]
      counter_decreaseAbsent)

lemma keys_after_frame:
  assumes "visibleLandmarks lm \<ge> 2"
  shows "set (map fst (snd (analyzePosture lm ic))) =
           set (fst (detectIssues lm)) \<union> set (map fst ic)"
  using assms by (simp add: analyzePosture_counters keys_increaseDetected del: set_map)

lemma distinct_after_frame:
  "distinct (map fst ic) \<Longrightarrow> distinct (map fst (snd (analyzePosture lm ic)))"
  by (cases "visibleLandmarks lm < 2")
     (simp_all add: analyzePosture_gated analyzePosture_counters distinct_increaseDetected)

subsection \<open>Messages\<close>

lemma issueMessages_distinct: "distinct (map snd issueMessages)"
  by (simp add: issueMessages_def tooFarMessage_def)

lemma alist_value_unique:
  "distinct (map snd al) \<Longrightarrow> (k, m) \<in> set al \<Longrightarrow> (j, m) \<in> set al \<Longrightarrow> k = j"
  by (induction al) (auto simp: rev_image_eqI)

lemma issueMessage_in_table: "issueMessage k = Some m \<Longrightarrow> (k, m) \<in> set issueMessages"
  unfolding issueMessage_def by (rule map_of_SomeD)

lemma issueMessage_inj:
  "issueMessage k = Some m \<Longrightarrow> issueMessage j = Some m \<Longrightarrow> k = j"
  by (rule alist_value_unique [OF issueMessages_distinct])
     (erule issueMessage_in_table)+

lemma feedback_not_issue:
  "m \<in> set (positiveFeedback t) \<Longrightarrow> m \<notin> snd ` set issueMessages"
  by (simp add: positiveFeedback_def issueMessages_def tooFarMessage_def split: if_splits)

lemma issueMessage_not_feedback:
  "issueMessage k = Some m \<Longrightarrow> m \<notin> set (positiveFeedback t)"
proof
  assume "issueMessage k = Some m" and fb: "m \<in> set (positiveFeedback t)"
  then have "(k, m) \<in> set issueMessages"
    by (simp add: issueMessage_in_table)
  then have "snd (k, m) \<in> snd ` set issueMessages"
    by (rule imageI)
  with feedback_not_issue [OF fb] show False
    by simp
qed

lemma too_far_message: "issueMessage ''too_far_from_camera'' = Some tooFarMessage"
  by (simp add: issueMessage_def issueMessages_def)

lemma head_neck_message:
  "issueMessage ''head_neck_alignment'' =
     Some ''Poor head and neck alignment - Try to align your head directly over your shoulders''"
  by (simp add: issueMessage_def issueMessages_def)

lemma consistentIssues_Cons:
  "consistentIssues potential ((j, c) # ic) =
     (if CONSISTENCY_THRESHOLD \<le> c \<and> j \<in> set potential
      then (case issueMessage j of Some m \<Rightarrow> [m] | None \<Rightarrow> []) else []) @
     consistentIssues potential ic"
  by (simp add: consistentIssues_def)

lemma in_consistentIssues:
  "m \<in> set (consistentIssues potential ic) \<longleftrightarrow>
     (\<exists>k c. (k, c) \<in> set ic \<and> CONSISTENCY_THRESHOLD \<le> c \<and> k \<in> set potential \<and>
            issueMessage k = Some m)"
proof (induction ic)
  case Nil
  show ?case by (simp add: consistentIssues_def)
next
  case (Cons e ic)
  obtain j c where e: "e = (j, c)" by (cases e)
  consider
    (skip) "\<not> (CONSISTENCY_THRESHOLD \<le> c \<and> j \<in> set potential) \<or> issueMessage j = None" |
    (push) a where "CONSISTENCY_THRESHOLD \<le> c" "j \<in> set potential" "issueMessage j = Some a"
    by (cases "issueMessage j") auto
  then show ?case
  proof cases
    case skip
    then have "consistentIssues potential (e # ic) = consistentIssues potential ic"
      unfolding e consistentIssues_Cons by auto
    with skip Cons.IH show ?thesis
      unfolding e by auto
  next
    case push
    then have "consistentIssues potential (e # ic) = a # consistentIssues potential ic"
      unfolding e consistentIssues_Cons by simp
    with push Cons.IH show ?thesis
      unfolding e by auto
  qed
qed

lemma shown_iff:
  assumes gate: "visibleLandmarks lm \<ge> 2" and dist: "distinct (map fst ic)"
    and msg: "issueMessage k = Some m"
  shows "m \<in> set (issues (fst (analyzePosture lm ic))) \<longleftrightarrow>
           CONSISTENCY_THRESHOLD \<le> counter k (snd (analyzePosture lm ic)) \<and>
           k \<in> set (fst (detectIssues lm))"
proof -
  let ?ic = "snd (analyzePosture lm ic)"
  let ?pot = "fst (detectIssues lm)"
  have d: "distinct (map fst ?ic)"
    using dist by (rule distinct_after_frame)
  have "m \<in> set (issues (fst (analyzePosture lm ic))) \<longleftrightarrow> m \<in> set (consistentIssues ?pot ?ic)"
    using gate issueMessage_not_feedback [OF msg] by (simp add: analyzePosture_issues)
  also have "\<dots> \<longleftrightarrow> (\<exists>j c. (j, c) \<in> set ?ic \<and> CONSISTENCY_THRESHOLD \<le> c \<and> j \<in> set ?pot \<and>
                             issueMessage j = Some m)"
    by (rule in_consistentIssues)
  also have "\<dots> \<longleftrightarrow> (\<exists>c. (k, c) \<in> set ?ic \<and> CONSISTENCY_THRESHOLD \<le> c) \<and> k \<in> set ?pot"
    using issueMessage_inj [OF msg] msg by blast
  also have "\<dots> \<longleftrightarrow> CONSISTENCY_THRESHOLD \<le> counter k ?ic \<and> k \<in> set ?pot"
    using counter_ge_iff [OF d, of CONSISTENCY_THRESHOLD k]
    by (simp add: CONSISTENCY_THRESHOLD_def)
  finally show ?thesis .
qed

subsection \<open>The visibility gate and the score range\<close>

text \<open>
  Claim C2, as stated, lets the degraded result depend on the shoulder separation alone.
  In \<open>unseenFrame\<close> fewer than two key landmarks are visible and the two shoulders
  coincide (separation 0), yet the analysis is the score 7.5 with the reposition issue,
  not the score 5 with the too-far issue: the source tests the separation only when both
  shoulders have visibility above 0.1.
\<close>

theorem gate_small_separation_counterexample:
  "visibleLandmarks unseenFrame < 2 \<and>
   shoulderDistance (leftShoulder unseenFrame) (rightShoulder unseenFrame) = 0 \<and>
   score (fst (analyzePosture unseenFrame [])) = 7.5 \<and>
   score (fst (analyzePosture unseenFrame [])) \<noteq> 5 \<and>
   issues (fst (analyzePosture unseenFrame [])) = [repositionMessage]"
  by (simp add: unseenFrame_analysis unseenFrame_visible)
     (simp add: unseenFrame_def uniformFrame_def shoulderDistance_def)

text \<open>
  Claim C2, amended: if fewer than 2 of nose, left shoulder and right shoulder have
  visibility above 0.2, the per-frame analysis is a fixed degraded result and the
  consistency counters are left as they are: score exactly 5 with the too-far-from-camera
  issue when both shoulders have visibility above 0.1 and their separation is below 0.1,
  otherwise score exactly 7.5 with the reposition issue, all five metrics 0 in both cases.
  For every frame that passes the gate the per-frame score lies in [2, 10].
\<close>

theorem visibility_gate_result:
  "(visibleLandmarks lm < 2 \<longrightarrow>
      analyzePosture lm ic =
        (if visibility (leftShoulder lm) > 0.1 \<and> visibility (rightShoulder lm) > 0.1 \<and>
            shoulderDistance (leftShoulder lm) (rightShoulder lm) < 0.1
         then \<lparr>score = 5, issues = [tooFarMessage], neckAngle = 0, shoulderAlignment = 0,
                spineAlignment = 0, headPosition = 0, shoulderHeight = 0\<rparr>
         else \<lparr>score = 7.5, issues = [repositionMessage], neckAngle = 0,
                shoulderAlignment = 0, spineAlignment = 0, headPosition = 0,
                shoulderHeight = 0\<rparr>, ic)) \<and>
   (visibleLandmarks lm \<ge> 2 \<longrightarrow>
      2 \<le> score (fst (analyzePosture lm ic)) \<and> score (fst (analyzePosture lm ic)) \<le> 10)"
  by (simp add: analyzePosture_gated analyzePosture_score)

theorem visibility_gate_result_witness:
  "visibleLandmarks farFrame < 2 \<and>
   score (fst (analyzePosture farFrame [])) = 5 \<and>
   issues (fst (analyzePosture farFrame [])) = [tooFarMessage] \<and>
   visibleLandmarks seenFrame \<ge> 2 \<and>
   2 \<le> score (fst (analyzePosture seenFrame [])) \<and>
   score (fst (analyzePosture seenFrame [])) \<le> 10"
  using visibility_gate_result [of farFrame "[]"] visibility_gate_result [of seenFrame "[]"]
  by (simp add: farFrame_visible seenFrame_visible)
     (simp add: farFrame_def uniformFrame_def shoulderDistance_def)

subsection \<open>Metrics of unseen joints\<close>

text \<open>
  Claim C6: when every joint relevant to an angle metric (neckAngle: nose, left ear, left
  shoulder; shoulderAlignment and shoulderHeight: both shoulders; spineAlignment: both
  shoulders and both hips; headPosition: both ears and nose) has visibility below 0.5,
  that metric is exactly 0, both as computed by its calculator and as returned in the
  per-frame analysis.
\<close>

theorem unseen_joints_give_zero_metric:
  "(visibility (nose lm) < 0.5 \<and> visibility (leftEar lm) < 0.5 \<and>
      visibility (leftShoulder lm) < 0.5 \<longrightarrow>
      calculateNeckAngle lm = 0 \<and> neckAngle (fst (analyzePosture lm ic)) = 0) \<and>
   (visibility (leftShoulder lm) < 0.5 \<and> visibility (rightShoulder lm) < 0.5 \<longrightarrow>
      calculateShoulderAlignment lm = 0 \<and> shoulderAlignment (fst (analyzePosture lm ic)) = 0 \<and>
      calculateShoulderHeight lm = 0 \<and> shoulderHeight (fst (analyzePosture lm ic)) = 0) \<and>
   (visibility (leftShoulder lm) < 0.5 \<and> visibility (rightShoulder lm) < 0.5 \<and>
      visibility (leftHip lm) < 0.5 \<and> visibility (rightHip lm) < 0.5 \<longrightarrow>
      calculateSpineAlignment lm = 0 \<and> spineAlignment (fst (analyzePosture lm ic)) = 0) \<and>
   (visibility (leftEar lm) < 0.5 \<and> visibility (rightEar lm) < 0.5 \<and>
      visibility (nose lm) < 0.5 \<longrightarrow>
      calculateHeadPosition lm = 0 \<and> headPosition (fst (analyzePosture lm ic)) = 0)"
  by (simp add: analyzePosture_metrics neck_zero shoulderAlignment_zero spine_zero
        headPosition_zero shoulderHeight_zero)

theorem unseen_joints_give_zero_metric_witness:
  "visibility (nose unseenFrame) < 0.5 \<and> visibility (leftEar unseenFrame) < 0.5 \<and>
   visibility (rightEar unseenFrame) < 0.5 \<and> visibility (leftShoulder unseenFrame) < 0.5 \<and>
   visibility (rightShoulder unseenFrame) < 0.5 \<and> visibility (leftHip unseenFrame) < 0.5 \<and>
   visibility (rightHip unseenFrame) < 0.5 \<and>
   calculateNeckAngle unseenFrame = 0 \<and> calculateShoulderAlignment unseenFrame = 0 \<and>
   calculateShoulderHeight unseenFrame = 0 \<and> calculateSpineAlignment unseenFrame = 0 \<and>
   calculateHeadPosition unseenFrame = 0"
  using unseen_joints_give_zero_metric [of unseenFrame "[]"]
  by (simp add: unseenFrame_def uniformFrame_def)

subsection \<open>The head and neck check\<close>

text \<open>
  Claim C10: for every landmark frame that passes the 2-of-3 visibility gate,
  \<^verbatim>\<open>calculateHeadNeckScore\<close> returns a value in [0, 10], which is below the threshold
  60, so the check flags \<^verbatim>\<open>head_neck_alignment\<close> and subtracts its flat penalty 1;
  the running score is therefore at most 9 and so is the per-frame score.
\<close>

theorem head_neck_alignment_always_flagged:
  assumes "visibleLandmarks lm \<ge> 2"
  shows "0 \<le> calculateHeadNeckScore lm \<and> calculateHeadNeckScore lm \<le> 10 \<and>
         calculateHeadNeckScore lm < 60 \<and>
         checkHeadNeck (calculateHeadNeckScore lm) s = flag ''head_neck_alignment'' 1 s \<and>
         ''head_neck_alignment'' \<in> set (fst (detectIssues lm)) \<and>
         snd (detectIssues lm) \<le> 9 \<and>
         score (fst (analyzePosture lm ic)) \<le> 9"
  using assms headNeckScore_range [of lm] totalScore_le_9 [of lm]
  by (simp add: checkHeadNeck_flags head_neck_in_potential analyzePosture_score)

theorem head_neck_alignment_always_flagged_witness:
  "visibleLandmarks seenFrame \<ge> 2 \<and>
   calculateHeadNeckScore seenFrame < 60 \<and>
   ''head_neck_alignment'' \<in> set (fst (detectIssues seenFrame)) \<and>
   score (fst (analyzePosture seenFrame [])) \<le> 9"
  using head_neck_alignment_always_flagged [of seenFrame "([], 10)" "[]"]
  by (simp add: seenFrame_visible)

section \<open>Properties of the issue classifier\<close>

text \<open>
  Claim C1, as stated, speaks of every sequence of frames. It fails on the very first
  frame when that frame is stopped by the visibility gate with both shoulders faintly
  visible and close together: the gate returns the message of the issue
  \<^verbatim>\<open>too_far_from_camera\<close> at once, while the counter of that issue is 0.
\<close>

theorem gated_frame_shows_too_far_counterexample:
  "issueMessage ''too_far_from_camera'' = Some tooFarMessage \<and>
   tooFarMessage \<in> set (issues (fst (analyzePosture farFrame []))) \<and>
   counter ''too_far_from_camera'' (snd (analyzePosture farFrame [])) = 0 \<and>
   \<not> CONSISTENCY_THRESHOLD \<le> counter ''too_far_from_camera'' (snd (analyzePosture farFrame []))"
  by (simp add: too_far_message farFrame_analysis CONSISTENCY_THRESHOLD_def)

text \<open>
  Claim C1, amended: for every state of the counters (a dictionary, each key occurring
  once) and every frame that passes the visibility gate, the message of an issue is in the per-frame issues list if and only
  if the counter of the issue, as updated by this frame, is at least 3 and the issue is
  flagged in this frame. It therefore never appears on a qualifying frame that found its
  counter at 0, and it is absent on every frame that does not flag the issue, whatever
  the counter. (A frame stopped by the gate returns its fixed instructional issue
  without consulting or changing the counters.)
\<close>

theorem issue_shown_iff_consistent_and_flagged:
  assumes "visibleLandmarks lm \<ge> 2" and "distinct (map fst ic)" and "issueMessage k = Some m"
  shows "(m \<in> set (issues (fst (analyzePosture lm ic))) \<longleftrightarrow>
            CONSISTENCY_THRESHOLD \<le> counter k (snd (analyzePosture lm ic)) \<and>
            k \<in> set (fst (detectIssues lm))) \<and>
         (counter k ic = 0 \<longrightarrow> m \<notin> set (issues (fst (analyzePosture lm ic)))) \<and>
         (k \<notin> set (fst (detectIssues lm)) \<longrightarrow>
            m \<notin> set (issues (fst (analyzePosture lm ic))))"
  using assms counter_after_frame [OF assms(1), of k ic]
  by (simp add: shown_iff CONSISTENCY_THRESHOLD_def)

theorem issue_shown_iff_consistent_and_flagged_witness:
  "visibleLandmarks seenFrame \<ge> 2 \<and>
   distinct (map fst [(''head_neck_alignment'', 2::int), (''slouching'', 5)]) \<and>
   issueMessage ''head_neck_alignment'' =
     Some ''Poor head and neck alignment - Try to align your head directly over your shoulders'' \<and>
   ''Poor head and neck alignment - Try to align your head directly over your shoulders''
     \<in> set (issues (fst (analyzePosture seenFrame
                          [(''head_neck_alignment'', 2), (''slouching'', 5)]))) \<and>
   counter ''head_neck_alignment''
     (snd (analyzePosture seenFrame [(''head_neck_alignment'', 2), (''slouching'', 5)])) = 3"
  using issue_shown_iff_consistent_and_flagged
    [of seenFrame "[(''head_neck_alignment'', 2), (''slouching'', 5)]" "''head_neck_alignment''"
        "''Poor head and neck alignment - Try to align your head directly over your shoulders''"]
    counter_after_frame [of seenFrame "''head_neck_alignment''"
        "[(''head_neck_alignment'', 2), (''slouching'', 5)]"]
  by (simp add: seenFrame_visible head_neck_message seenFrame_detectIssues
      CONSISTENCY_THRESHOLD_def)

section \<open>Properties of the score smoothing\<close>

subsection \<open>Rounding to binary64\<close>

lemma ulp64_pos: "0 < ulp64 v"
  by (simp add: ulp64_def)

lemma roundHalfEven_error: "\<bar>of_int (roundHalfEven q) - q\<bar> \<le> 1 / 2"
  unfolding roundHalfEven_def by (auto simp: abs_if) linarith+

lemma roundHalfEven_of_int [simp]: "roundHalfEven (of_int n) = n"
  by (simp add: roundHalfEven_def)

lemma binary64_zero [simp]: "binary64 0 = 0"
  by (simp add: binary64_def)

lemma binary64_error: "\<bar>binary64 v - v\<bar> \<le> ulp64 v / 2"
proof (cases "v = 0")
  case True
  then show ?thesis using ulp64_pos [of v] by simp
next
  case False
  let ?u = "ulp64 v"
  have u: "0 < ?u" by (rule ulp64_pos)
  have "binary64 v - v = (of_int (roundHalfEven (v / ?u)) - v / ?u) * ?u"
    using False u by (simp add: binary64_def algebra_simps)
  then have "\<bar>binary64 v - v\<bar> = \<bar>of_int (roundHalfEven (v / ?u)) - v / ?u\<bar> * ?u"
    using u by (simp add: abs_mult)
  also have "\<dots> \<le> 1 / 2 * ?u"
    using roundHalfEven_error [of "v / ?u"] u by (intro mult_right_mono) simp_all
  finally show ?thesis by simp
qed

lemma exponent64_eq:
  assumes "2 powr of_int e \<le> \<bar>v\<bar>" and "\<bar>v\<bar> < 2 powr (of_int e + 1)" and "- 1022 \<le> e"
  shows "exponent64 v = e"
proof -
  have "0 < \<bar>v\<bar>"
    using assms(1) powr_gt_zero [of 2 "of_int e"] by linarith
  then have "\<lfloor>log 2 \<bar>v\<bar>\<rfloor> = e"
    using assms(1,2) by (simp add: floor_log_eq_powr_iff)
  with assms(3) show ?thesis
    by (simp add: exponent64_def)
qed

text \<open>The value of \<open>binary64\<close> once the binade of its argument is known.\<close>

lemma binary64_eval:
  assumes "2 powr of_int e \<le> \<bar>v\<bar>" and "\<bar>v\<bar> < 2 powr (of_int e + 1)" and "- 1022 \<le> e"
  shows "binary64 v = of_int (roundHalfEven (v / 2 powr (of_int e - 52))) * 2 powr (of_int e - 52)"
proof -
  have "v \<noteq> 0"
    using assms(1) powr_gt_zero [of 2 "of_int e"] by auto
  then show ?thesis
    by (simp add: binary64_def ulp64_def exponent64_eq [OF assms])
qed

lemma ulp64_le:
  assumes "v \<noteq> 0" and "\<bar>v\<bar> < 2 powr of_int k" and "- 1021 \<le> k"
  shows "ulp64 v \<le> 2 powr (of_int k - 53)"
proof -
  have "log 2 \<bar>v\<bar> < of_int k"
    using assms(1,2) by (simp add: log_less_iff)
  then have "\<lfloor>log 2 \<bar>v\<bar>\<rfloor> < k"
    by (simp add: floor_less_iff)
  with assms(3) have "exponent64 v \<le> k - 1"
    by (simp add: exponent64_def)
  then have "(of_int (exponent64 v) :: real) - 52 \<le> of_int k - 53"
    by linarith
  then show ?thesis
    unfolding ulp64_def by (intro powr_mono) simp_all
qed

lemma binary64_error_below:
  assumes "\<bar>v\<bar> < 2 powr of_int k" and "- 1021 \<le> k"
  shows "\<bar>binary64 v - v\<bar> \<le> 2 powr (of_int k - 54)"
proof (cases "v = 0")
  case True
  then show ?thesis by simp
next
  case False
  have "ulp64 v \<le> 2 powr (of_int k - 53)"
    using False assms by (rule ulp64_le)
  moreover have "(2::real) powr (of_int k - 54) = 2 powr (of_int k - 53) / 2"
  proof -
    have "(of_int k :: real) - 54 = (of_int k - 53) - 1"
      by simp
    then show ?thesis
      by (simp only: powr_diff) simp
  qed
  ultimately show ?thesis
    using binary64_error [of v] by linarith
qed

text \<open>Numbers with at most 53 significant bits are not changed by the rounding.\<close>

lemma binary64_exact:
  assumes v: "v = of_int m / 2 ^ j" and m: "\<bar>m\<bar> < 2 ^ 53" and j: "j \<le> 1074"
  shows "binary64 v = v"
proof (cases "v = 0")
  case True
  then show ?thesis by simp
next
  case False
  have "\<bar>v\<bar> = of_int \<bar>m\<bar> / 2 ^ j"
    by (simp add: v)
  also have "\<dots> < 2 ^ 53 / 2 ^ j"
  proof -
    have "(of_int \<bar>m\<bar> :: real) < of_int (2 ^ 53)"
      using m by (simp only: of_int_less_iff)
    then show ?thesis
      by (simp add: divide_strict_right_mono)
  qed
  also have "\<dots> = 2 powr (53 - real j)"
    by (simp add: powr_diff powr_realpow)
  finally have lt: "\<bar>v\<bar> < 2 powr (53 - real j)" .
  then have "log 2 \<bar>v\<bar> < 53 - real j"
    using False by (simp add: log_less_iff)
  then have "log 2 \<bar>v\<bar> < of_int (53 - int j)"
    by simp
  then have "\<lfloor>log 2 \<bar>v\<bar>\<rfloor> < 53 - int j"
    by (simp only: floor_less_iff)
  with j have e: "exponent64 v \<le> 52 - int j"
    by (simp add: exponent64_def)
  define i where "i = nat (52 - int j - exponent64 v)"
  have "of_int (exponent64 v) - 52 = - real j - real i"
    using e by (simp add: i_def)
  then have "ulp64 v = 2 powr (- real j - real i)"
    by (simp add: ulp64_def)
  also have "\<dots> = 1 / (2 ^ j * 2 ^ i)"
    by (simp add: powr_diff powr_minus powr_realpow field_simps)
  finally have u: "ulp64 v = 1 / (2 ^ j * 2 ^ i)" .
  have q: "v / ulp64 v = of_int (m * 2 ^ i)"
    unfolding u by (simp add: v)
  have "binary64 v = of_int (roundHalfEven (v / ulp64 v)) * ulp64 v"
    using False by (simp add: binary64_def)
  also have "\<dots> = of_int (m * 2 ^ i) * ulp64 v"
    by (simp only: q roundHalfEven_of_int)
  also have "\<dots> = v"
    unfolding u by (simp add: v)
  finally show ?thesis .
qed

lemma binary64_numeral [simp]:
  "numeral a < (2::int) ^ 53 \<Longrightarrow> binary64 (numeral a) = numeral a"
  using binary64_exact [of "numeral a" "numeral a" 0] by simp

lemma binary64_numeral_half [simp]:
  "numeral a < (2::int) ^ 53 \<Longrightarrow> binary64 (numeral a / 2) = numeral a / 2"
  using binary64_exact [of "numeral a / 2" "numeral a" 1] by simp

lemma binary64_numeral_quarter [simp]:
  "numeral a < (2::int) ^ 53 \<Longrightarrow> binary64 (numeral a / 4) = numeral a / 4"
  using binary64_exact [of "numeral a / 4" "numeral a" 2] by simp

lemma binary64_eight_point_three: "binary64 (83 / 10) = 2336242306698445 / 2 ^ 48"
  using binary64_eval [of 3 "83 / 10"]
  by (simp add: powr_neg_numeral roundHalfEven_def)

subsection \<open>The computed mean and the arithmetic mean\<close>

lemma sum_list_range:
  "\<forall>x \<in> set xs. 0 \<le> f x \<and> f x \<le> B \<Longrightarrow>
     0 \<le> sum_list (map f xs) \<and> sum_list (map f xs) \<le> B * real (length xs)"
  for B :: real
  by (induction xs) (auto simp: algebra_simps)

lemma rounding_unit_small:
  assumes "k \<le> 50"
  shows "(2::real) powr (of_int k - 54) \<le> 1 / 16"
proof -
  have "(2::real) powr (of_int k - 54) \<le> 2 powr (- 4)"
    using assms by (intro powr_mono) simp_all
  then show ?thesis
    by (simp add: powr_neg_numeral)
qed

lemma float_sum_error:
  fixes B :: real and k :: int
  assumes B: "12 * B + 1 \<le> 2 powr of_int k" and k: "- 1021 \<le> k" "k \<le> 50"
    and "\<forall>x \<in> set xs. 0 \<le> f x \<and> f x \<le> B" and "length xs \<le> 12"
  shows "\<bar>foldl (\<lambda>sum a. binary64 (sum + f a)) 0 xs - sum_list (map f xs)\<bar>
           \<le> real (length xs) * 2 powr (of_int k - 54)"
  using assms(4,5)
proof (induction xs rule: rev_induct)
  case Nil
  show ?case by simp
next
  case (snoc a xs)
  let ?s = "foldl (\<lambda>sum a. binary64 (sum + f a)) 0 xs"
  let ?S = "sum_list (map f xs)"
  let ?e = "(2::real) powr (of_int k - 54)"
  have e: "0 \<le> ?e" "?e \<le> 1 / 16"
    using rounding_unit_small [OF k(2)] by simp_all
  have n: "real (length xs) \<le> 11"
    using snoc.prems(2) by simp
  have IH: "\<bar>?s - ?S\<bar> \<le> real (length xs) * ?e"
    using snoc by simp
  have a: "0 \<le> f a" "f a \<le> B"
    using snoc.prems(1) by simp_all
  then have B0: "0 \<le> B"
    by linarith
  have S: "0 \<le> ?S" "?S \<le> B * real (length xs)"
    using sum_list_range [of xs f B] snoc.prems(1) by simp_all
  have "B * real (length xs) \<le> B * 11"
    using n B0 by (rule mult_left_mono)
  with S have S11: "?S \<le> 11 * B"
    by linarith
  have "real (length xs) * ?e \<le> 11 * (1 / 16)"
    using n e by (intro mult_mono) simp_all
  with IH S S11 a B have "\<bar>?s + f a\<bar> < 2 powr of_int k"
    by (simp add: abs_le_iff abs_less_iff)
  then have "\<bar>binary64 (?s + f a) - (?s + f a)\<bar> \<le> ?e"
    using k(1) by (rule binary64_error_below)
  with IH have "\<bar>binary64 (?s + f a) - (?S + f a)\<bar> \<le> real (length xs) * ?e + ?e"
    by linarith
  then show ?case
    by (simp add: algebra_simps)
qed

lemma average_error:
  fixes B :: real and k :: int
  assumes B: "12 * B + 1 \<le> 2 powr of_int k" and k: "- 1021 \<le> k" "k \<le> 50"
    and range: "\<forall>x \<in> set xs. 0 \<le> f x \<and> f x \<le> B" and ne: "xs \<noteq> []"
    and len: "length xs \<le> 12"
  shows "\<bar>average f xs - mean f xs\<bar> \<le> 2 powr (of_int k - 53)"
proof -
  let ?s = "foldl (\<lambda>sum a. binary64 (sum + f a)) 0 xs"
  let ?S = "sum_list (map f xs)"
  let ?e = "(2::real) powr (of_int k - 54)"
  let ?n = "real (length xs)"
  have e: "0 \<le> ?e" "?e \<le> 1 / 16"
    using rounding_unit_small [OF k(2)] by simp_all
  have n: "1 \<le> ?n" "?n \<le> 12"
    using ne len by (cases xs, simp_all)
  have err: "\<bar>?s - ?S\<bar> \<le> ?n * ?e"
    using B k range len by (rule float_sum_error)
  obtain x where "x \<in> set xs"
    using ne by (cases xs) auto
  with range have B0: "0 \<le> B"
    by force
  have S: "0 \<le> ?S" "?S \<le> B * ?n"
    using sum_list_range [of xs f B] range by simp_all
  have "B * ?n \<le> B * 12"
    using n(2) B0 by (rule mult_left_mono)
  with S have S12: "?S \<le> 12 * B"
    by linarith
  have "?n * ?e \<le> 12 * (1 / 16)"
    using n e by (intro mult_mono) simp_all
  with err S S12 B have s: "\<bar>?s\<bar> < 2 powr of_int k"
    by (simp add: abs_le_iff abs_less_iff)
  have "\<bar>?s\<bar> / ?n \<le> \<bar>?s\<bar> / 1"
    using n ne by (intro divide_left_mono) simp_all
  then have "\<bar>?s / ?n\<bar> \<le> \<bar>?s\<bar>"
    by simp
  with s have "\<bar>?s / ?n\<bar> < 2 powr of_int k"
    by linarith
  then have r: "\<bar>binary64 (?s / ?n) - ?s / ?n\<bar> \<le> ?e"
    using k(1) by (rule binary64_error_below)
  have "\<bar>?s / ?n - ?S / ?n\<bar> = \<bar>?s - ?S\<bar> / ?n"
    using n by (simp add: diff_divide_distrib [symmetric])
  also have "\<dots> \<le> (?n * ?e) / ?n"
    using err n by (intro divide_right_mono) simp_all
  also have "\<dots> = ?e"
    using ne by simp
  finally have "\<bar>?s / ?n - ?S / ?n\<bar> \<le> ?e" .
  with r have "\<bar>binary64 (?s / ?n) - ?S / ?n\<bar> \<le> ?e + ?e"
    by linarith
  also have "?e + ?e = 2 powr (of_int k - 53)"
  proof -
    have "(of_int k :: real) - 54 = (of_int k - 53) - 1"
      by simp
    then have "?e = 2 powr (of_int k - 53) / 2"
      by (simp only: powr_diff) simp
    then show ?thesis
      by simp
  qed
  finally show ?thesis
    by (simp add: average_def mean_def)
qed

text \<open>Every per-frame score lies between 2 and 10, so the bound applies with 2 to the -46.\<close>

lemma analyzePosture_score_range:
  "2 \<le> score (fst (analyzePosture lm ic)) \<and> score (fst (analyzePosture lm ic)) \<le> 10"
  by (cases "visibleLandmarks lm < 2") (simp_all add: analyzePosture_gated analyzePosture_score)

lemma score_average_error:
  assumes "\<forall>a \<in> set history. 0 \<le> score a \<and> score a \<le> 10" and "history \<noteq> []"
    and "length history \<le> 12"
  shows "\<bar>average score history - mean score history\<bar> \<le> 2 powr (- 46)"
  using average_error [of 10 7 history score] assms by simp

subsection \<open>The smoothing step\<close>

lemma smooth_nonempty:
  assumes "history \<noteq> []"
  shows "smoothPostureAnalysis history cur ic =
     (\<lparr>score = jsRound (average score history), issues = issues (last history),
       neckAngle = binary64 (jsRound (binary64 (average neckAngle history * 10)) / 10),
       shoulderAlignment =
         binary64 (jsRound (binary64 (average shoulderAlignment history * 10)) / 10),
       spineAlignment = binary64 (jsRound (binary64 (average spineAlignment history * 10)) / 10),
       headPosition = binary64 (jsRound (binary64 (average headPosition history * 10)) / 10),
       shoulderHeight = binary64 (jsRound (binary64 (average shoulderHeight history * 10)) / 10)\<rparr>,
      filter (\<lambda>(issue, count). count \<noteq> 0) (if average score history > 8 then [] else ic))"
  using assms
  by (simp add: smoothPostureAnalysis_def Let_def last_conv_nth)

lemma smooth_empty:
  "snd (smoothPostureAnalysis [] cur ic) = ic"
  by (simp add: smoothPostureAnalysis_def split: option.splits)

lemma smooth_no_zero_counter:
  "history \<noteq> [] \<Longrightarrow> (k, c) \<in> set (snd (smoothPostureAnalysis history cur ic)) \<Longrightarrow> c \<noteq> 0"
  by (auto simp: smooth_nonempty split: if_splits)

lemma distinct_after_smoothing:
  assumes "distinct (map fst ic)"
  shows "distinct (map fst (snd (smoothPostureAnalysis history cur ic)))"
proof (cases "history = []")
  case True
  with assms show ?thesis by (simp add: smooth_empty)
next
  case False
  with assms show ?thesis by (simp add: smooth_nonempty distinct_map_filter)
qed

lemma pushWindow_drop:
  assumes "0 < w"
  shows "foldl (\<lambda>h a. pushWindow w a h) [] xs = drop (length xs - w) xs"
proof (induction xs rule: rev_induct)
  case Nil
  show ?case by simp
next
  case (snoc a xs)
  let ?d = "drop (length xs - w) xs"
  have step: "foldl (\<lambda>h a. pushWindow w a h) [] (xs @ [a]) = pushWindow w a ?d"
    using snoc by simp
  show ?case
  proof (cases "length xs < w")
    case True
    then show ?thesis
      unfolding step by (simp add: pushWindow_def Let_def)
  next
    case False
    then have len: "length ?d = w" and ne: "?d \<noteq> []"
      using assms by simp_all
    have "pushWindow w a ?d = tl ?d @ [a]"
      using len ne by (simp add: pushWindow_def Let_def)
    also have "tl ?d = drop (Suc (length xs - w)) xs"
      by (simp add: drop_Suc tl_drop)
    also have "drop (Suc (length xs - w)) xs @ [a] = drop (length (xs @ [a]) - w) (xs @ [a])"
      using False assms by (simp add: Suc_diff_le)
    finally show ?thesis
      unfolding step .
  qed
qed

lemma historyAfter_window:
  "historyAfter analyses = drop (length analyses - 12) analyses"
  by (simp add: historyAfter_def SMOOTHING_WINDOW_def pushWindow_drop)

lemma exampleAnalyses_window: "historyAfter exampleAnalyses = tl exampleAnalyses"
  by (simp add: historyAfter_window exampleAnalyses_def)

lemma exampleAnalyses_score:
  "average score (historyAfter exampleAnalyses) = 33 / 4 \<and>
   mean score (historyAfter exampleAnalyses) = 33 / 4"
  by (simp add: exampleAnalyses_window)
     (simp add: exampleAnalyses_def average_def mean_def unseenFrame_analysis
        analysisLeaning_def)

lemma exampleAnalyses_neckAngle:
  "average neckAngle (historyAfter exampleAnalyses) = 33 / 4"
  by (simp add: exampleAnalyses_window)
     (simp add: exampleAnalyses_def average_def unseenFrame_analysis analysisLeaning_def)

text \<open>
  Two histories on which the rounding of the sum decides the outcome. The scores are
  binary64 numbers that \<^verbatim>\<open>analyzePosture\<close> produces: \<^verbatim>\<open>10 - 0.4 - 1 - 1.3 - 2\<close>
  (5.3) and \<^verbatim>\<open>10 - 1.8 - 0.5\<close> (7.699999999999999) in the first,
  \<^verbatim>\<open>10 - 0.6 - 0.7 - 1\<close> (7.700000000000001) and \<^verbatim>\<open>10 - 0.7 - 1\<close> (8.3) in the second.
\<close>

lemma analysisLow_Mid_average:
  "average score [analysisLow, analysisMid] = 13 / 2 \<and>
   mean score [analysisLow, analysisMid] < 13 / 2"
proof -
  let ?a = "5967269506265907 / 2 ^ 50 :: real"
  let ?b = "8669429282688204 / 2 ^ 50 :: real"
  have avg: "average score [analysisLow, analysisMid] =
               binary64 (binary64 (binary64 ?a + ?b) / 2)"
    by (simp add: average_def analysisLow_def analysisMid_def scoredAnalysis_def)
  have a: "binary64 ?a = ?a"
    by (rule binary64_exact [of _ 5967269506265907 50]) simp_all
  have s: "binary64 (?a + ?b) = 13"
    using binary64_eval [of 3 "?a + ?b"]
    by (simp add: powr_neg_numeral roundHalfEven_def)
  have h: "binary64 (13 / 2) = 13 / 2"
    by simp
  have "average score [analysisLow, analysisMid] = 13 / 2"
    by (simp only: avg a s h)
  moreover have "mean score [analysisLow, analysisMid] < 13 / 2"
    by (simp add: mean_def analysisLow_def analysisMid_def scoredAnalysis_def)
  ultimately show ?thesis ..
qed

lemma analysisHigh_average:
  "average score [analysisHighA, analysisHighB] = 8 \<and>
   mean score [analysisHighA, analysisHighB] > 8"
proof -
  let ?a = "8669429282688206 / 2 ^ 50 :: real"
  let ?b = "4672484613396890 / 2 ^ 49 :: real"
  have avg: "average score [analysisHighA, analysisHighB] =
               binary64 (binary64 (binary64 ?a + ?b) / 2)"
    by (simp add: average_def analysisHighA_def analysisHighB_def scoredAnalysis_def)
  have a: "binary64 ?a = ?a"
    by (rule binary64_exact [of _ 8669429282688206 50]) simp_all
  have s: "binary64 (?a + ?b) = 16"
    using binary64_eval [of 4 "?a + ?b"]
    by (simp add: powr_neg_numeral roundHalfEven_def)
  have h: "binary64 (16 / 2) = 8"
    by simp
  have "average score [analysisHighA, analysisHighB] = 8"
    by (simp only: avg a s h)
  moreover have "mean score [analysisHighA, analysisHighB] > 8"
    by (simp add: mean_def analysisHighA_def analysisHighB_def scoredAnalysis_def)
  ultimately show ?thesis ..
qed

subsection \<open>Smoothed score, metrics and issues\<close>

text \<open>
  Claim C3, as stated, makes the smoothed score the arithmetic mean itself. A history
  holding the single degraded analysis of \<open>unseenFrame\<close> has mean score 7.5, and the
  smoothed score is 8: the source rounds the mean with \<^verbatim>\<open>Math.round\<close>.
\<close>

theorem smoothed_score_is_rounded_counterexample:
  "mean score [fst (analyzePosture unseenFrame [])] = 7.5 \<and>
   score (fst (smoothPostureAnalysis [fst (analyzePosture unseenFrame [])] None [])) = 8"
  by (simp add: smooth_nonempty unseenFrame_analysis mean_def average_def jsRound_def)

text \<open>
  The integer published follows the mean as the source computes it, not the arithmetic
  mean: for the scores \<^verbatim>\<open>5.3\<close> and \<^verbatim>\<open>7.699999999999999\<close> the arithmetic mean is
  below 6.5 and would round to 6, the binary64 sum is 13 and the published score is 7.
\<close>

lemma published_score_follows_binary64_mean:
  "jsRound (mean score [analysisLow, analysisMid]) = 6 \<and>
   score (fst (smoothPostureAnalysis [analysisLow, analysisMid] None [])) = 7"
proof -
  have "jsRound (mean score [analysisLow, analysisMid]) = 6"
    by (simp add: mean_def analysisLow_def analysisMid_def scoredAnalysis_def jsRound_def)
  moreover have "score (fst (smoothPostureAnalysis [analysisLow, analysisMid] None [])) = 7"
    by (simp add: smooth_nonempty jsRound_def analysisLow_Mid_average [THEN conjunct1])
  ultimately show ?thesis ..
qed

text \<open>
  Claim C3, amended: for every non-empty sequence of per-frame analyses pushed onto the
  history, the history holds the last min(N, 12) of them, and the issues list of the
  smoothed analysis is exactly the issues list of the single most recent per-frame
  analysis. The smoothed score is \<^verbatim>\<open>Math.round\<close> of the mean of their scores as the
  source computes it (the binary64 sum taken from the oldest entry on, then one binary64
  division), and each of the five smoothed metrics is that mean of the metric rounded to
  one decimal place by \<^verbatim>\<open>Math.round(avg * 10) / 10\<close>, again in binary64. The computed
  mean of a field whose values lie in [0, B], with 12 B + 1 at most 2 to the k, differs
  from the arithmetic mean by at most 2 to the k - 53: by at most 2 to the -46 for the
  scores, which lie in [2, 10].
\<close>

theorem smoothed_analysis_is_rounded_mean:
  assumes "analyses \<noteq> []"
  shows "historyAfter analyses = drop (length analyses - 12) analyses \<and>
         length (historyAfter analyses) = min (length analyses) 12 \<and>
         fst (smoothPostureAnalysis (historyAfter analyses) cur ic) =
           \<lparr>score = jsRound (average score (historyAfter analyses)),
            issues = issues (last analyses),
            neckAngle =
              binary64 (jsRound (binary64 (average neckAngle (historyAfter analyses) * 10)) / 10),
            shoulderAlignment =
              binary64 (jsRound (binary64
                (average shoulderAlignment (historyAfter analyses) * 10)) / 10),
            spineAlignment =
              binary64 (jsRound (binary64
                (average spineAlignment (historyAfter analyses) * 10)) / 10),
            headPosition =
              binary64 (jsRound (binary64 (average headPosition (historyAfter analyses) * 10)) / 10),
            shoulderHeight =
              binary64 (jsRound (binary64
                (average shoulderHeight (historyAfter analyses) * 10)) / 10)\<rparr> \<and>
         ((\<forall>a \<in> set analyses. 0 \<le> field a \<and> field a \<le> B) \<and>
            12 * B + 1 \<le> 2 powr of_int k \<and> - 1021 \<le> k \<and> k \<le> 50 \<longrightarrow>
            \<bar>average field (historyAfter analyses) - mean field (historyAfter analyses)\<bar>
              \<le> 2 powr (of_int k - 53))"
proof -
  let ?h = "historyAfter analyses"
  have lt: "length analyses - 12 < length analyses"
    using assms by (cases analyses) simp_all
  then have ne: "?h \<noteq> []"
    by (simp add: historyAfter_window)
  have la: "last ?h = last analyses"
    using lt by (simp add: historyAfter_window)
  have len: "length ?h = min (length analyses) 12"
    by (simp add: historyAfter_window)
  have sub: "set ?h \<subseteq> set analyses"
    by (simp add: historyAfter_window set_drop_subset)
  have "\<bar>average field ?h - mean field ?h\<bar> \<le> 2 powr (of_int k - 53)"
    if "\<forall>a \<in> set analyses. 0 \<le> field a \<and> field a \<le> B"
      and "12 * B + 1 \<le> 2 powr of_int k" and "- 1021 \<le> k" and "k \<le> 50"
  proof (rule average_error [OF that(2) that(3) that(4) _ ne])
    show "\<forall>x \<in> set ?h. 0 \<le> field x \<and> field x \<le> B"
      using that(1) sub by blast
    show "length ?h \<le> 12"
      using len by simp
  qed
  then show ?thesis
    using historyAfter_window [of analyses] len smooth_nonempty [OF ne, of cur ic] la
    by simp
qed

theorem smoothed_analysis_is_rounded_mean_witness:
  "exampleAnalyses \<noteq> [] \<and> length exampleAnalyses = 13 \<and>
   length (historyAfter exampleAnalyses) = 12 \<and>
   mean score (historyAfter exampleAnalyses) = 8.25 \<and>
   score (fst (smoothPostureAnalysis (historyAfter exampleAnalyses) None [])) = 8 \<and>
   neckAngle (fst (smoothPostureAnalysis (historyAfter exampleAnalyses) None [])) =
     binary64 (83 / 10) \<and>
   issues (fst (smoothPostureAnalysis (historyAfter exampleAnalyses) None [])) =
     [''Excellent posture! Keep it up!''] \<and>
   \<bar>average score (historyAfter exampleAnalyses) - mean score (historyAfter exampleAnalyses)\<bar>
     \<le> 2 powr (- 46)"
proof -
  let ?h = "historyAfter exampleAnalyses"
  let ?r = "fst (smoothPostureAnalysis ?h None [])"
  have ne: "exampleAnalyses \<noteq> []" and n: "length exampleAnalyses = 13"
    by (simp_all add: exampleAnalyses_def)
  have range: "\<forall>a \<in> set exampleAnalyses. 0 \<le> score a \<and> score a \<le> 10"
    by (simp add: exampleAnalyses_def farFrame_analysis unseenFrame_analysis
        analysisLeaning_def)
  have la: "issues (last exampleAnalyses) = [''Excellent posture! Keep it up!'']"
    by (simp add: exampleAnalyses_def analysisLeaning_def)
  note claim = smoothed_analysis_is_rounded_mean [OF ne, of None "[]" score 10 7]
  have len: "length ?h = 12"
    using claim [THEN conjunct2, THEN conjunct1] n by simp
  note smoothed = claim [THEN conjunct2, THEN conjunct2, THEN conjunct1]
  have sc: "score ?r = jsRound (average score ?h)"
    by (simp only: smoothed PostureAnalysis.simps)
  have na: "neckAngle ?r = binary64 (jsRound (binary64 (average neckAngle ?h * 10)) / 10)"
    by (simp only: smoothed PostureAnalysis.simps)
  have iss: "issues ?r = issues (last exampleAnalyses)"
    by (simp only: smoothed PostureAnalysis.simps)
  have close: "\<bar>average score ?h - mean score ?h\<bar> \<le> 2 powr (- 46)"
    using claim [THEN conjunct2, THEN conjunct2, THEN conjunct2] range by simp
  have m: "mean score ?h = 8.25"
    by (simp add: exampleAnalyses_score [THEN conjunct2])
  have sc8: "score ?r = 8"
    unfolding sc by (simp add: jsRound_def exampleAnalyses_score [THEN conjunct1])
  have na83: "neckAngle ?r = binary64 (83 / 10)"
    unfolding na by (simp add: jsRound_def exampleAnalyses_neckAngle)
  show ?thesis
    using ne n len m sc8 na83 iss la close by simp
qed

subsection \<open>Clearing the counters\<close>




text \<open>
  The test is made on the mean as the source computes it. For the scores
  \<^verbatim>\<open>10 - 0.6 - 0.7 - 1\<close> and \<^verbatim>\<open>10 - 0.7 - 1\<close> the arithmetic mean is above 8, the
  binary64 sum is 16, the computed mean is 8 and the counters are kept.
\<close>

lemma counters_kept_when_computed_mean_is_eight:
  "mean score [analysisHighA, analysisHighB] > 8 \<and>
   snd (smoothPostureAnalysis [analysisHighA, analysisHighB] None
          [(''head_neck_alignment'', 3)]) = [(''head_neck_alignment'', 3)]"
  using analysisHigh_average by (simp add: smooth_nonempty)

text \<open>
  When the arithmetic mean of at most 12 scores in [0, 10] exceeds 8 by more than
  2 to the -46, the computed mean exceeds 8 as well.
\<close>

lemma computed_mean_above_eight:
  assumes "\<forall>a \<in> set history. 0 \<le> score a \<and> score a \<le> 10" and "history \<noteq> []"
    and "length history \<le> 12" and "mean score history > 8 + 2 powr (- 46)"
  shows "average score history > 8"
  using score_average_error [OF assms(1,2,3)] assms(4) by linarith




subsection \<open>Counter updates\<close>

text \<open>
  Claim C5, as stated, prunes a counter in the per-frame classification step once it
  reaches 0. After \<open>seenFrame\<close>, which does not flag \<^verbatim>\<open>slouching\<close>, a counter of 2
  for it becomes 0 and the entry is still in the dictionary: \<^verbatim>\<open>analyzePosture\<close> never
  deletes an entry.
\<close>

theorem zero_counter_not_pruned_counterexample:
  "snd (analyzePosture seenFrame [(''slouching'', 2)]) =
     [(''slouching'', 0), (''head_neck_alignment'', 1), (''too_far_from_camera'', 1)] \<and>
   tracked ''slouching'' (snd (analyzePosture seenFrame [(''slouching'', 2)]))"
  by (simp add: analyzePosture_counters seenFrame_visible seenFrame_detectIssues
      decreaseAbsent_def increaseDetected_def tracked_def)

text \<open>
  Claim C5, amended: in every per-frame classification step (a frame that passes the
  visibility gate), each tracked issue absent from this frame's potential issues has its
  counter set to the maximum of 0 and the counter minus 3 and stays tracked, and each
  issue present in the potential issues has its counter incremented by exactly 1, with no
  upper cap. Entries that have reached 0 are removed by the next smoothing pass, which
  on a non-empty history leaves no entry with counter 0.
\<close>

theorem counter_update_per_frame:
  assumes "visibleLandmarks lm \<ge> 2"
  shows "(tracked k ic \<and> k \<notin> set (fst (detectIssues lm)) \<longrightarrow>
            counter k (snd (analyzePosture lm ic)) = max 0 (counter k ic - 3) \<and>
            tracked k (snd (analyzePosture lm ic))) \<and>
         (k \<in> set (fst (detectIssues lm)) \<longrightarrow>
            counter k (snd (analyzePosture lm ic)) = counter k ic + 1 \<and>
            tracked k (snd (analyzePosture lm ic))) \<and>
         (history \<noteq> [] \<longrightarrow>
            (\<forall>(j, c) \<in> set (snd (smoothPostureAnalysis history cur ic)). c \<noteq> 0))"
proof -
  have "tracked k (snd (analyzePosture lm ic)) \<longleftrightarrow>
          k \<in> set (fst (detectIssues lm)) \<or> tracked k ic"
    using keys_after_frame [OF assms, of ic] by (simp add: tracked_iff del: set_map)
  moreover have "\<forall>(j, c) \<in> set (snd (smoothPostureAnalysis history cur ic)). c \<noteq> 0"
    if "history \<noteq> []"
    using smooth_no_zero_counter [OF that] by blast
  ultimately show ?thesis
    using assms by (simp add: counter_after_frame)
qed

theorem counter_update_per_frame_witness:
  "visibleLandmarks seenFrame \<ge> 2 \<and>
   tracked ''slouching'' [(''slouching'', 5), (''head_neck_alignment'', 7)] \<and>
   ''slouching'' \<notin> set (fst (detectIssues seenFrame)) \<and>
   counter ''slouching''
     (snd (analyzePosture seenFrame [(''slouching'', 5), (''head_neck_alignment'', 7)])) = 2 \<and>
   ''head_neck_alignment'' \<in> set (fst (detectIssues seenFrame)) \<and>
   counter ''head_neck_alignment''
     (snd (analyzePosture seenFrame [(''slouching'', 5), (''head_neck_alignment'', 7)])) = 8 \<and>
   [analysisEight] \<noteq> [] \<and>
   snd (smoothPostureAnalysis [analysisEight] None
          [(''slouching'', 0), (''head_neck_alignment'', 8)]) = [(''head_neck_alignment'', 8)]"
  using counter_update_per_frame
      [of seenFrame "''slouching''" "[(''slouching'', 5), (''head_neck_alignment'', 7)]"
          "[analysisEight]" None]
    counter_update_per_frame
      [of seenFrame "''head_neck_alignment''"
          "[(''slouching'', 5), (''head_neck_alignment'', 7)]" "[analysisEight]" None]
    counter_update_per_frame
      [of seenFrame "''slouching''" "[(''slouching'', 0), (''head_neck_alignment'', 8)]"
          "[analysisEight]" None]
  by (simp add: seenFrame_visible seenFrame_detectIssues tracked_def smooth_nonempty
      average_def analysisEight_def)


section \<open>Properties of the landmark smoother\<close>




lemma averageLandmark_empty:
  "averageLandmark [] = \<lparr>px = 0, py = 0, pz = 0, visibility = 0\<rparr>"
  by (simp add: averageLandmark_def)




lemma smoothLandmarks_succeeds: "window \<noteq> [] \<Longrightarrow> \<exists>frame. smoothLandmarks window = Inr frame"
  by (simp add: smoothLandmarks_def)






section \<open>Properties of the detection loop\<close>

subsection \<open>One tick of the loop\<close>

lemma extractLandmarks_succeeds:
  "17 \<le> length pose \<Longrightarrow> \<exists>raw. extractLandmarks pose = Inr raw"
  by (simp add: extractLandmarks_def getKeypoint_def bindE_def Let_def
      del: length_greater_0_conv)

lemma pushWindow_nonempty: "0 < w \<Longrightarrow> pushWindow w v h \<noteq> []"
  by (cases h) (auto simp: pushWindow_def Let_def)

lemma pushWindow_nonempty_landmarks [simp]: "pushWindow LANDMARK_SMOOTHING_WINDOW v h \<noteq> []"
  by (rule pushWindow_nonempty) (simp add: LANDMARK_SMOOTHING_WINDOW_def)

lemma pushWindow_nonempty_analyses [simp]: "pushWindow SMOOTHING_WINDOW v h \<noteq> []"
  by (rule pushWindow_nonempty) (simp add: SMOOTHING_WINDOW_def)

lemma processFrame_published:
  assumes "snd (processFrame estimate now s) = Some a"
  shows "now - lastUpdateTime s \<ge> UPDATE_INTERVAL \<and>
         lastUpdateTime (fst (processFrame estimate now s)) = now \<and>
         currentAnalysis (fst (processFrame estimate now s)) = Some a"
  using assms
  by (auto simp: processFrame_def Let_def split: sum.splits list.splits if_splits)

lemma processFrame_silent:
  assumes "snd (processFrame estimate now s) = None"
  shows "lastUpdateTime (fst (processFrame estimate now s)) = lastUpdateTime s \<and>
         currentAnalysis (fst (processFrame estimate now s)) = currentAnalysis s"
  using assms
  by (auto simp: processFrame_def Let_def split: sum.splits list.splits if_splits)

lemma processFrame_complete:
  assumes "analysisCompletes estimate"
  shows "(snd (processFrame estimate now s) \<noteq> None \<longleftrightarrow>
            now - lastUpdateTime s \<ge> UPDATE_INTERVAL) \<and>
         postureHistory (fst (processFrame estimate now s)) \<noteq> [] \<and>
         landmarkHistory (fst (processFrame estimate now s)) \<noteq> []"
proof -
  from assms obtain pose rest where est: "estimate = Inr (pose # rest)" and len: "17 \<le> length pose"
    by (auto simp: analysisCompletes_def split: sum.splits list.splits)
  from len obtain raw where raw: "extractLandmarks pose = Inr raw"
    using extractLandmarks_succeeds by blast
  let ?lh = "pushWindow LANDMARK_SMOOTHING_WINDOW raw (landmarkHistory s)"
  obtain frame where frame: "smoothLandmarks ?lh = Inr frame"
    using smoothLandmarks_succeeds [of ?lh] by auto
  show ?thesis
    unfolding processFrame_def est
    by (simp add: raw frame Let_def)
qed

lemma processFrame_published_smoothed:
  assumes "snd (processFrame estimate now s) = Some a"
  shows "\<exists>cur ic. postureHistory (fst (processFrame estimate now s)) \<noteq> [] \<and>
           a = fst (smoothPostureAnalysis (postureHistory (fst (processFrame estimate now s)))
                      cur ic)"
  using assms
  by (auto simp: processFrame_def Let_def split: sum.splits list.splits if_splits)
     (rule exI, rule exI, rule refl)

lemma detectPose_fields [simp]:
  "snd (detectPose estimate now newId s) = snd (processFrame estimate now s)"
  "lastUpdateTime (fst (detectPose estimate now newId s)) =
     lastUpdateTime (fst (processFrame estimate now s))"
  "currentAnalysis (fst (detectPose estimate now newId s)) =
     currentAnalysis (fst (processFrame estimate now s))"
  "postureHistory (fst (detectPose estimate now newId s)) =
     postureHistory (fst (processFrame estimate now s))"
  "landmarkHistory (fst (detectPose estimate now newId s)) =
     landmarkHistory (fst (processFrame estimate now s))"
  "issueConsistency (fst (detectPose estimate now newId s)) =
     issueConsistency (fst (processFrame estimate now s))"
  "animationFrame (fst (detectPose estimate now newId s)) =
     Some (if \<not> isPageVisible s then TimeoutId newId else FrameId newId)"
  "isPageVisible (fst (detectPose estimate now newId s)) = isPageVisible s"
  by (auto simp: detectPose_def reschedule_def Let_def processFrame_def
      split: sum.splits list.splits if_splits)


subsection \<open>Runs of the loop\<close>

lemma publications_gap:
  "sorted_wrt (\<lambda>t t'. t' - t \<ge> UPDATE_INTERVAL) (map fst (publications ticks s)) \<and>
   (\<forall>t \<in> set (map fst (publications ticks s)). t - lastUpdateTime s \<ge> UPDATE_INTERVAL)"
proof (induction ticks arbitrary: s)
  case Nil
  show ?case by simp
next
  case (Cons tick ticks)
  obtain estimate now newId where tick: "tick = (estimate, now, newId)"
    by (cases tick)
  let ?s' = "fst (detectPose estimate now newId s)"
  note IH = Cons.IH [of ?s']
  show ?case
  proof (cases "snd (processFrame estimate now s)")
    case None
    with IH processFrame_silent [OF None] show ?thesis
      by (simp add: tick)
  next
    case (Some a)
    from processFrame_published [OF Some]
    have gap: "now - lastUpdateTime s \<ge> UPDATE_INTERVAL" and last: "lastUpdateTime ?s' = now"
      by simp_all
    have "0 \<le> UPDATE_INTERVAL"
      by (simp add: UPDATE_INTERVAL_def)
    with IH gap last Some show ?thesis
      by (auto simp: tick)
  qed
qed

subsection \<open>Rate-limited emission\<close>

text \<open>
  Claim C8: on each completed per-frame analysis, a smoothed analysis is published if
  and only if the clock reading minus \<^verbatim>\<open>lastUpdateTime\<close> is at least 2000 ms; on
  publication \<^verbatim>\<open>lastUpdateTime\<close> becomes the clock reading (and the published value
  is the current analysis, the smoothing of the history as it stands), otherwise it is
  unchanged; so over any run of the loop, whatever the ticks and their clock readings,
  any two publications are at least 2000 ms apart.
\<close>

theorem emission_rate_limited:
  "(analysisCompletes estimate \<longrightarrow>
      (snd (detectPose estimate now newId s) \<noteq> None \<longleftrightarrow>
         now - lastUpdateTime s \<ge> 2000)) \<and>
   (\<forall>a. snd (detectPose estimate now newId s) = Some a \<longrightarrow>
      now - lastUpdateTime s \<ge> 2000 \<and>
      lastUpdateTime (fst (detectPose estimate now newId s)) = now \<and>
      currentAnalysis (fst (detectPose estimate now newId s)) = Some a \<and>
      (\<exists>cur ic. a = fst (smoothPostureAnalysis
                          (postureHistory (fst (detectPose estimate now newId s))) cur ic))) \<and>
   (snd (detectPose estimate now newId s) = None \<longrightarrow>
      lastUpdateTime (fst (detectPose estimate now newId s)) = lastUpdateTime s) \<and>
   sorted_wrt (\<lambda>t t'. t' - t \<ge> 2000) (map fst (publications ticks s))"
proof -
  have "\<exists>cur ic. a = fst (smoothPostureAnalysis
                          (postureHistory (fst (detectPose estimate now newId s))) cur ic)"
    if "snd (detectPose estimate now newId s) = Some a" for a
    using processFrame_published_smoothed [of estimate now s a] that by simp
  moreover have "sorted_wrt (\<lambda>t t'. t' - t \<ge> 2000) (map fst (publications ticks s))"
    using publications_gap [of ticks s] by (simp add: UPDATE_INTERVAL_def)
  ultimately show ?thesis
    using processFrame_complete [of estimate now s] processFrame_silent [of estimate now s]
      processFrame_published [of estimate now s]
    by (simp add: UPDATE_INTERVAL_def)
qed

theorem emission_rate_limited_witness:
  "analysisCompletes unseenPose \<and>
   snd (detectPose unseenPose 5000 1 initialService) \<noteq> None \<and>
   lastUpdateTime (fst (detectPose unseenPose 5000 1 initialService)) = 5000 \<and>
   snd (detectPose unseenPose 5100 2 (fst (detectPose unseenPose 5000 1 initialService))) = None"
proof -
  let ?s1 = "fst (detectPose unseenPose 5000 1 initialService)"
  have c: "analysisCompletes unseenPose"
    by (simp add: analysisCompletes_def unseenPose_def)
  have l0: "lastUpdateTime initialService = 0"
    by (simp add: initialService_def)
  from emission_rate_limited [of unseenPose 5000 1 initialService "[]"] c l0
  have p1: "snd (detectPose unseenPose 5000 1 initialService) \<noteq> None"
    by simp
  then obtain a where a: "snd (detectPose unseenPose 5000 1 initialService) = Some a"
    by blast
  with emission_rate_limited [of unseenPose 5000 1 initialService "[]"]
  have l1: "lastUpdateTime ?s1 = 5000"
    by simp
  from emission_rate_limited [of unseenPose 5100 2 ?s1 "[]"] c l1
  have "snd (detectPose unseenPose 5100 2 ?s1) = None"
    by simp
  with c p1 l1 show ?thesis
    by simp
qed


subsection \<open>Stopping the engine\<close>

lemma stop_keeps:
  "postureHistory (fst (stop s)) = postureHistory s"
  "landmarkHistory (fst (stop s)) = landmarkHistory s"
  "issueConsistency (fst (stop s)) = issueConsistency s"
  "lastUpdateTime (fst (stop s)) = lastUpdateTime s"
  "isPageVisible (fst (stop s)) = isPageVisible s"
  by (simp_all add: stop_def split: option.splits)

lemma stop_clears:
  "currentAnalysis (fst (stop s)) = None" "isInitialized (fst (stop s)) = False"
  by (simp_all add: stop_def split: option.splits)

lemma stop_cancels:
  "animationFrame s = None \<Longrightarrow> snd (stop s) = []"
  "animationFrame s = Some h \<Longrightarrow> handleId h \<noteq> 0 \<Longrightarrow>
     snd (stop s) = [if \<not> isPageVisible s then ClearTimeout (handleId h)
                     else CancelAnimationFrame (handleId h)] \<and>
     animationFrame (fst (stop s)) = None"
  by (simp_all add: stop_def)

lemma stop_after_visibility_change:
  assumes "newId \<noteq> 0" and "isPageVisible s"
  shows "animationFrame (visibilityChange True (fst (detectPose estimate now newId s))) =
           Some (FrameId newId) \<and>
         snd (stop (visibilityChange True (fst (detectPose estimate now newId s)))) =
           [ClearTimeout newId]"
  using assms by (simp add: visibilityChange_def stop_def)

text \<open>
  Claim C9, as stated, has \<^verbatim>\<open>stop\<close> clear the rolling history buffers and cancel
  whichever callback is pending. After one completed tick of a fresh service, stopping
  leaves both the per-frame analysis window and the landmark window non-empty:
  \<^verbatim>\<open>stop\<close> does not touch them. Moreover the cancellation call is chosen by the
  current page visibility: when the page became hidden after an animation frame was
  requested, \<^verbatim>\<open>stop\<close> calls \<^verbatim>\<open>clearTimeout\<close> on the number of that animation frame.
\<close>

theorem stop_keeps_history_counterexample:
  "postureHistory (fst (stop (fst (detectPose unseenPose 5000 1 initialService)))) \<noteq> [] \<and>
   landmarkHistory (fst (stop (fst (detectPose unseenPose 5000 1 initialService)))) \<noteq> [] \<and>
   animationFrame (visibilityChange True (fst (detectPose unseenPose 5000 1 initialService))) =
     Some (FrameId 1) \<and>
   snd (stop (visibilityChange True (fst (detectPose unseenPose 5000 1 initialService)))) =
     [ClearTimeout 1]"
proof -
  have "analysisCompletes unseenPose"
    by (simp add: analysisCompletes_def unseenPose_def)
  from processFrame_complete [OF this, of 5000 initialService]
  have "postureHistory (fst (processFrame unseenPose 5000 initialService)) \<noteq> []"
    and "landmarkHistory (fst (processFrame unseenPose 5000 initialService)) \<noteq> []"
    by simp_all
  moreover have "isPageVisible initialService"
    by (simp add: initialService_def)
  ultimately show ?thesis
    using stop_after_visibility_change [of 1 initialService unseenPose 5000]
    by (simp add: stop_keeps)
qed

text \<open>
  Claim C9, amended: stopping the engine clears the current analysis and marks the engine
  as not initialised; it leaves the landmark window, the per-frame analysis window and the
  consistency counters as they are. With no handle stored it cancels nothing; with a
  non-zero handle stored it forgets the handle, and when the page visibility is the one
  under which the callback was scheduled (an animation frame while visible, a timeout
  while hidden) it calls the cancellation that matches the pending callback, as it does
  when \<^verbatim>\<open>stop\<close> directly follows the tick that scheduled it.
\<close>

theorem stop_effect:
  "currentAnalysis (fst (stop s)) = None \<and>
   isInitialized (fst (stop s)) = False \<and>
   postureHistory (fst (stop s)) = postureHistory s \<and>
   landmarkHistory (fst (stop s)) = landmarkHistory s \<and>
   issueConsistency (fst (stop s)) = issueConsistency s \<and>
   (animationFrame s = None \<longrightarrow> snd (stop s) = []) \<and>
   (\<forall>n. n \<noteq> 0 \<and> animationFrame s = Some (FrameId n) \<and> isPageVisible s \<longrightarrow>
        snd (stop s) = [CancelAnimationFrame n] \<and> animationFrame (fst (stop s)) = None) \<and>
   (\<forall>n. n \<noteq> 0 \<and> animationFrame s = Some (TimeoutId n) \<and> \<not> isPageVisible s \<longrightarrow>
        snd (stop s) = [ClearTimeout n] \<and> animationFrame (fst (stop s)) = None) \<and>
   (newId \<noteq> 0 \<longrightarrow>
      snd (stop (fst (detectPose estimate now newId s))) =
        [if isPageVisible s then CancelAnimationFrame newId else ClearTimeout newId] \<and>
      animationFrame (fst (stop (fst (detectPose estimate now newId s)))) = None)"
  using stop_cancels(2) [of "fst (detectPose estimate now newId s)"]
  by (auto simp: stop_keeps stop_clears stop_cancels)

theorem stop_effect_witness:
  "(1::nat) \<noteq> 0 \<and>
   snd (stop (fst (detectPose unseenPose 5000 1 initialService))) = [CancelAnimationFrame 1] \<and>
   animationFrame (fst (stop (fst (detectPose unseenPose 5000 1 initialService)))) = None \<and>
   currentAnalysis (fst (stop (fst (detectPose unseenPose 5000 1 initialService)))) = None \<and>
   animationFrame (initialService\<lparr>animationFrame := Some (TimeoutId 7), isPageVisible := False\<rparr>)
     = Some (TimeoutId 7) \<and>
   snd (stop (initialService\<lparr>animationFrame := Some (TimeoutId 7), isPageVisible := False\<rparr>))
     = [ClearTimeout 7] \<and>
   animationFrame initialService = None \<and> snd (stop initialService) = []"
  using stop_effect [of "fst (detectPose unseenPose 5000 1 initialService)" 1 unseenPose 5000]
    stop_effect [of initialService 1 unseenPose 5000]
    stop_effect [of "initialService\<lparr>animationFrame := Some (TimeoutId 7), isPageVisible := False\<rparr>"
       1 unseenPose 5000]
  by (simp add: initialService_def)


subsection \<open>The counters in reachable states\<close>

text \<open>
  The counters form a dictionary: every key occurs once. This holds initially and is
  kept by every tick of the loop, so it holds in every state the loop reaches.
\<close>

lemma distinct_processFrame:
  assumes "distinct (map fst (issueConsistency s))"
  shows "distinct (map fst (issueConsistency (fst (processFrame estimate now s))))"
  using assms
  by (auto simp: processFrame_def Let_def distinct_after_frame distinct_after_smoothing
      split: sum.splits list.splits if_splits)

lemma distinct_runDetection:
  "distinct (map fst (issueConsistency s)) \<Longrightarrow>
     distinct (map fst (issueConsistency (runDetection ticks s)))"
  by (induction ticks arbitrary: s) (auto simp: distinct_processFrame)

lemma reachable_counters_distinct:
  "distinct (map fst (issueConsistency (runDetection ticks initialService)))"
  by (rule distinct_runDetection) (simp add: initialService_def)


end
